theory Spec2Isabelle
  imports Main "HOL-Library.Word" "HOL-Library.Code_Target_Numeral"
begin

section \<open>JSON values and JSON texts (encoding/json, lexical layer)\<close>

text \<open>
  The proxy (proxy/main.go) talks JSON through Go's encoding/json. This section models the
  part of that package the proxy relies on: JSON values, the scanner that checks and reads a
  JSON text (RFC 8259, as \<^verbatim>\<open>json.Unmarshal\<close> does before it decodes anything) and the
  compact rendering \<^verbatim>\<open>json.Marshal\<close> produces. A Go string is a byte sequence, here a
  \<^typ>\<open>string\<close>; it need not be well-formed UTF-8. A number keeps its literal: it is
  converted only when it is stored into a field of a numeric type.
\<close>

datatype json =
    JNull
  | JBool bool
  | JNumber string
  | JString string
  | JArray "json list"
  | JObject "(string \<times> json) list"

datatype token =
    TLBrace | TRBrace | TLBrack | TRBrack | TColon | TComma
  | TNull | TTrue | TFalse
  | TNum string
  | TStr string

definition is_space :: "char \<Rightarrow> bool" where
  "is_space c = (c = CHR '' '' \<or> c = CHR 0x09 \<or> c = CHR 0x0A \<or> c = CHR 0x0D)"

definition is_digit :: "char \<Rightarrow> bool" where
  "is_digit c = (48 \<le> (of_char c :: nat) \<and> (of_char c :: nat) \<le> 57)"

definition is_number_char :: "char \<Rightarrow> bool" where
  "is_number_char c =
     (is_digit c \<or> c = CHR ''+'' \<or> c = CHR ''-'' \<or> c = CHR ''.'' \<or> c = CHR ''e'' \<or> c = CHR ''E'')"

subsection \<open>Number literals\<close>

text \<open>The grammar of a JSON number: \<^verbatim>\<open>-? (0 | [1-9][0-9]*) (. [0-9]+)? ([eE] [+-]? [0-9]+)?\<close>.\<close>

definition valid_exp :: "string \<Rightarrow> bool" where
  "valid_exp cs =
     (case cs of
        [] \<Rightarrow> True
      | e # r \<Rightarrow>
          (e = CHR ''e'' \<or> e = CHR ''E'') \<and>
          (let ds = (case r of
                       [] \<Rightarrow> []
                     | s # r' \<Rightarrow> if s = CHR ''+'' \<or> s = CHR ''-'' then r' else r)
           in ds \<noteq> [] \<and> list_all is_digit ds))"

definition valid_frac :: "string \<Rightarrow> bool" where
  "valid_frac cs =
     (case cs of
        [] \<Rightarrow> True
      | p # r \<Rightarrow>
          if p = CHR ''.''
          then takeWhile is_digit r \<noteq> [] \<and> valid_exp (dropWhile is_digit r)
          else valid_exp cs)"

definition valid_int :: "string \<Rightarrow> bool" where
  "valid_int cs =
     (case cs of
        [] \<Rightarrow> False
      | d # r \<Rightarrow>
          if d = CHR ''0'' then valid_frac r
          else is_digit d \<and> valid_frac (dropWhile is_digit r))"

definition valid_number :: "string \<Rightarrow> bool" where
  "valid_number cs =
     (case cs of
        [] \<Rightarrow> False
      | m # r \<Rightarrow> if m = CHR ''-'' then valid_int r else valid_int cs)"

subsection \<open>String literals\<close>

definition hex_val :: "char \<Rightarrow> nat option" where
  "hex_val c =
     (let n = (of_char c :: nat)
      in if 48 \<le> n \<and> n \<le> 57 then Some (n - 48)
         else if 97 \<le> n \<and> n \<le> 102 then Some (n - 87)
         else if 65 \<le> n \<and> n \<le> 70 then Some (n - 55)
         else None)"

text \<open>\<^verbatim>\<open>getu4\<close>: the code unit of the four hexadecimal digits after \<^verbatim>\<open>\u\<close>.\<close>

definition getu4 :: "char \<Rightarrow> char \<Rightarrow> char \<Rightarrow> char \<Rightarrow> nat option" where
  "getu4 a b c d =
     (case (hex_val a, hex_val b, hex_val c, hex_val d) of
        (Some x, Some y, Some z, Some w) \<Rightarrow> Some (((x * 16 + y) * 16 + z) * 16 + w)
      | _ \<Rightarrow> None)"

definition RuneError :: nat where
  "RuneError = 0xFFFD"

text \<open>\<^verbatim>\<open>utf8.EncodeRune\<close>: the UTF-8 bytes of a code point.\<close>

definition EncodeRune :: "nat \<Rightarrow> string" where
  "EncodeRune r =
     (let r = (if (0xD800 \<le> r \<and> r \<le> 0xDFFF) \<or> 0x10FFFF < r then RuneError else r)
      in if r < 0x80 then [char_of r]
         else if r < 0x800 then [char_of (0xC0 + r div 64), char_of (0x80 + r mod 64)]
         else if r < 0x10000
           then [char_of (0xE0 + r div 4096), char_of (0x80 + r div 64 mod 64),
                 char_of (0x80 + r mod 64)]
         else [char_of (0xF0 + r div 262144), char_of (0x80 + r div 4096 mod 64),
               char_of (0x80 + r div 64 mod 64), char_of (0x80 + r mod 64)])"

definition with_prefix :: "string \<Rightarrow> (string \<times> string) option \<Rightarrow> (string \<times> string) option" where
  "with_prefix p res = map_option (\<lambda>(s, r). (p @ s, r)) res"

text \<open>
  \<open>unescape_u\<close> reads what follows \<^verbatim>\<open>\u\<close>: four hexadecimal digits, and a second
  escape when the two are a surrogate pair. A lone surrogate becomes U+FFFD.
\<close>

definition low_surrogate :: "string \<Rightarrow> nat option" where
  "low_surrogate cs =
     (case cs of
        b # v # l1 # l2 # l3 # l4 # r \<Rightarrow>
          if b = CHR 0x5C \<and> v = CHR ''u''
          then (case getu4 l1 l2 l3 l4 of
                  Some u2 \<Rightarrow> if 0xDC00 \<le> u2 \<and> u2 \<le> 0xDFFF then Some u2 else None
                | None \<Rightarrow> None)
          else None
      | _ \<Rightarrow> None)"

definition unescape_u :: "string \<Rightarrow> (string \<times> string) option" where
  "unescape_u cs =
     (case cs of
        h1 # h2 # h3 # h4 # r \<Rightarrow>
          (case getu4 h1 h2 h3 h4 of
             None \<Rightarrow> None
           | Some u \<Rightarrow>
               if 0xD800 \<le> u \<and> u \<le> 0xDFFF then
                 (case (if u < 0xDC00 then low_surrogate r else None) of
                    Some u2 \<Rightarrow>
                      Some (EncodeRune (0x10000 + (u - 0xD800) * 1024 + (u2 - 0xDC00)), drop 6 r)
                  | None \<Rightarrow> Some (EncodeRune RuneError, r))
               else Some (EncodeRune u, r))
      | _ \<Rightarrow> None)"

text \<open>\<open>unescape\<close> reads one escape sequence after its backslash.\<close>

definition unescape :: "string \<Rightarrow> (string \<times> string) option" where
  "unescape cs =
     (case cs of
        [] \<Rightarrow> None
      | e # r \<Rightarrow>
          if e = CHR 0x22 \<or> e = CHR 0x5C \<or> e = CHR ''/'' then Some ([e], r)
          else if e = CHR ''b'' then Some ([CHR 0x08], r)
          else if e = CHR ''f'' then Some ([CHR 0x0C], r)
          else if e = CHR ''n'' then Some ([CHR 0x0A], r)
          else if e = CHR ''r'' then Some ([CHR 0x0D], r)
          else if e = CHR ''t'' then Some ([CHR 0x09], r)
          else if e = CHR ''u'' then unescape_u r
          else None)"

lemma unescape_u_shorter: "unescape_u cs = Some (p, r) \<Longrightarrow> length r \<le> length cs"
  by (auto simp: unescape_u_def split: list.splits option.splits if_splits)

lemma unescape_shorter: "unescape cs = Some (p, r) \<Longrightarrow> length r < Suc (length cs)"
  by (auto simp: unescape_def split: list.splits if_splits dest: unescape_u_shorter)

text \<open>
  \<^verbatim>\<open>utf8.DecodeRune\<close>, as far as the package needs it: \<open>rune_len s\<close> is the number of bytes
  of the well-formed UTF-8 encoding at the head of \<open>s\<close>, and 0 when there is none (the
  function returns \<^verbatim>\<open>RuneError\<close> with width 1 then). Encodings that are too long, of a
  surrogate or beyond U+10FFFF are not well formed.
\<close>

definition continuation :: "char \<Rightarrow> bool" where
  "continuation c = (0x80 \<le> (of_char c :: nat) \<and> (of_char c :: nat) \<le> 0xBF)"

definition rune_len :: "string \<Rightarrow> nat" where
  "rune_len s =
     (case s of
        [] \<Rightarrow> 0
      | c # r \<Rightarrow>
          if (of_char c :: nat) < 0x80 then 1
          else if 0xC2 \<le> (of_char c :: nat) \<and> (of_char c :: nat) \<le> 0xDF then
            (case r of
               c1 # _ \<Rightarrow> if continuation c1 then 2 else 0
             | _ \<Rightarrow> 0)
          else if 0xE0 \<le> (of_char c :: nat) \<and> (of_char c :: nat) \<le> 0xEF then
            (case r of
               c1 # c2 # _ \<Rightarrow>
                 if (if c = CHR 0xE0 then 0xA0 else 0x80) \<le> (of_char c1 :: nat) \<and>
                    (of_char c1 :: nat) \<le> (if c = CHR 0xED then 0x9F else 0xBF) \<and>
                    continuation c2
                 then 3 else 0
             | _ \<Rightarrow> 0)
          else if 0xF0 \<le> (of_char c :: nat) \<and> (of_char c :: nat) \<le> 0xF4 then
            (case r of
               c1 # c2 # c3 # _ \<Rightarrow>
                 if (if c = CHR 0xF0 then 0x90 else 0x80) \<le> (of_char c1 :: nat) \<and>
                    (of_char c1 :: nat) \<le> (if c = CHR 0xF4 then 0x8F else 0xBF) \<and>
                    continuation c2 \<and> continuation c3
                 then 4 else 0
             | _ \<Rightarrow> 0)
          else 0)"

text \<open>\<^verbatim>\<open>utf8.Valid\<close>: the string is a sequence of well-formed encodings.\<close>

function valid_utf8 :: "string \<Rightarrow> bool" where
  "valid_utf8 [] = True"
| "valid_utf8 (c # cs) =
     (rune_len (c # cs) \<noteq> 0 \<and> valid_utf8 (drop (rune_len (c # cs) - 1) cs))"
  by pat_completeness auto
termination
  by (relation "measure length") auto

declare valid_utf8.simps [simp del]

text \<open>
  \<open>lex_string\<close> reads a string literal after its opening quote and returns the string it
  denotes and the rest of the input (\<^verbatim>\<open>unquote\<close>). A control character or an unknown
  escape is a syntax error. A byte from 0x80 on that starts no well-formed UTF-8 encoding
  is replaced by the encoding of U+FFFD; a well-formed encoding is kept.
\<close>

function lex_string :: "string \<Rightarrow> (string \<times> string) option" where
  "lex_string [] = None"
| "lex_string (c # cs) =
     (if c = CHR 0x22 then Some ([], cs)
      else if c = CHR 0x5C then
        (case unescape cs of
           None \<Rightarrow> None
         | Some (p, r) \<Rightarrow> with_prefix p (lex_string r))
      else if (of_char c :: nat) < 0x20 then None
      else if (of_char c :: nat) < 0x80 then with_prefix [c] (lex_string cs)
      else if rune_len (c # cs) = 0 then with_prefix (EncodeRune RuneError) (lex_string cs)
      else with_prefix (c # take (rune_len (c # cs) - 1) cs)
             (lex_string (drop (rune_len (c # cs) - 1) cs)))"
  by pat_completeness auto
termination
  by (relation "measure length") (auto dest: unescape_shorter)

lemma lex_string_shorter: "lex_string cs = Some (s, r) \<Longrightarrow> length r < Suc (length cs)"
proof (induction cs arbitrary: s r rule: lex_string.induct)
  case 1
  then show ?case by simp
next
  case (2 c cs)
  show ?case
  proof (cases "c = CHR 0x22")
    case True
    with "2.prems" show ?thesis by simp
  next
    case nq: False
    show ?thesis
    proof (cases "c = CHR 0x5C")
      case True
      with nq "2.prems" obtain p r1 s1 where u: "unescape cs = Some (p, r1)"
        and l: "lex_string r1 = Some (s1, r)"
        by (auto simp: with_prefix_def split: option.splits)
      from "2.IH"(1) [OF nq True u refl l] unescape_shorter [OF u] show ?thesis by simp
    next
      case False
      with nq "2.prems" have c: "\<not> (of_char c :: nat) < 0x20"
        by (auto split: if_splits)
      show ?thesis
      proof (cases "(of_char c :: nat) < 0x80")
        case True
        with nq False c "2.prems" obtain s1 where l: "lex_string cs = Some (s1, r)"
          by (auto simp: with_prefix_def)
        from "2.IH"(2) [OF nq False c True l] show ?thesis by simp
      next
        case na: False
        show ?thesis
        proof (cases "rune_len (c # cs) = 0")
          case True
          with nq False c na "2.prems" obtain s1 where l: "lex_string cs = Some (s1, r)"
            by (auto simp: with_prefix_def)
          from "2.IH"(3) [OF nq False c na True l] show ?thesis by simp
        next
          case nz: False
          with nq False c na "2.prems" obtain s1 where
            l: "lex_string (drop (rune_len (c # cs) - 1) cs) = Some (s1, r)"
            by (auto simp: with_prefix_def)
          from "2.IH"(4) [OF nq False c na nz l]
          have "length r < Suc (length (drop (rune_len (c # cs) - 1) cs))" .
          then show ?thesis by simp
        qed
      qed
    qed
  qed
qed

subsection \<open>Tokens\<close>

definition tcons :: "token \<Rightarrow> token list option \<Rightarrow> token list option" where
  "tcons t res = map_option ((#) t) res"

text \<open>
  \<open>tokenize\<close> splits a text into tokens. A number is the longest run of number characters,
  which must follow the grammar; nothing but the six structural characters, the three
  literals, a number, a string and white space may occur.
\<close>

function tokenize :: "string \<Rightarrow> token list option" where
  "tokenize [] = Some []"
| "tokenize (c # cs) =
     (if is_space c then tokenize cs
      else if c = CHR ''{'' then tcons TLBrace (tokenize cs)
      else if c = CHR ''}'' then tcons TRBrace (tokenize cs)
      else if c = CHR ''['' then tcons TLBrack (tokenize cs)
      else if c = CHR '']'' then tcons TRBrack (tokenize cs)
      else if c = CHR '':'' then tcons TColon (tokenize cs)
      else if c = CHR '','' then tcons TComma (tokenize cs)
      else if c = CHR 0x22 then
        (case lex_string cs of
           None \<Rightarrow> None
         | Some (s, r) \<Rightarrow> tcons (TStr s) (tokenize r))
      else if c = CHR ''-'' \<or> is_digit c then
        (if valid_number (c # takeWhile is_number_char cs)
         then tcons (TNum (c # takeWhile is_number_char cs)) (tokenize (dropWhile is_number_char cs))
         else None)
      else if c = CHR ''n'' \<and> take 3 cs = ''ull'' then tcons TNull (tokenize (drop 3 cs))
      else if c = CHR ''t'' \<and> take 3 cs = ''rue'' then tcons TTrue (tokenize (drop 3 cs))
      else if c = CHR ''f'' \<and> take 4 cs = ''alse'' then tcons TFalse (tokenize (drop 4 cs))
      else None)"
  by pat_completeness auto
termination
  by (relation "measure length")
     (auto dest: lex_string_shorter simp: less_Suc_eq_le length_dropWhile_le)

subsection \<open>Values\<close>

text \<open>
  The scanner refuses a text nested deeper than \<^verbatim>\<open>maxNestingDepth\<close> = 10000
  (\<^verbatim>\<open>exceeded max depth\<close>): \<open>d\<close> is what is left of it.
\<close>

definition maxNestingDepth :: nat where
  "maxNestingDepth = 10000"

definition atom :: "token \<Rightarrow> json option" where
  "atom t =
     (case t of
        TNull \<Rightarrow> Some JNull
      | TTrue \<Rightarrow> Some (JBool True)
      | TFalse \<Rightarrow> Some (JBool False)
      | TNum l \<Rightarrow> Some (JNumber l)
      | TStr s \<Rightarrow> Some (JString s)
      | _ \<Rightarrow> None)"

definition expect :: "token \<Rightarrow> token list \<Rightarrow> token list option" where
  "expect t ts = (case ts of [] \<Rightarrow> None | u # r \<Rightarrow> if u = t then Some r else None)"

definition member_name :: "token list \<Rightarrow> (string \<times> token list) option" where
  "member_name ts =
     (case ts of
        TStr k # r \<Rightarrow> map_option (Pair k) (expect TColon r)
      | _ \<Rightarrow> None)"

lemma expect_shorter: "expect t ts = Some r \<Longrightarrow> length r < length ts"
  by (auto simp: expect_def split: list.splits if_splits)

lemma member_name_shorter: "member_name ts = Some (k, r) \<Longrightarrow> length r < length ts"
  by (auto simp: member_name_def split: list.splits token.splits dest: expect_shorter)

function parse_value :: "nat \<Rightarrow> token list \<Rightarrow> (json \<times> token list) option"
  and parse_elems :: "nat \<Rightarrow> token list \<Rightarrow> json list \<Rightarrow> (json \<times> token list) option"
  and parse_members ::
    "nat \<Rightarrow> token list \<Rightarrow> (string \<times> json) list \<Rightarrow> (json \<times> token list) option"
where
  "parse_value d [] = None"
| "parse_value d (t # ts) =
     (if t = TLBrack then
        (if d = 0 then None
         else (case expect TRBrack ts of
                 Some r \<Rightarrow> Some (JArray [], r)
               | None \<Rightarrow> parse_elems (d - 1) ts []))
      else if t = TLBrace then
        (if d = 0 then None
         else (case expect TRBrace ts of
                 Some r \<Rightarrow> Some (JObject [], r)
               | None \<Rightarrow> parse_members (d - 1) ts []))
      else map_option (\<lambda>j. (j, ts)) (atom t))"
| "parse_elems d ts acc =
     (case parse_value d ts of
        None \<Rightarrow> None
      | Some (v, r) \<Rightarrow>
          if length r < length ts then
            (case expect TComma r of
               Some r' \<Rightarrow> parse_elems d r' (acc @ [v])
             | None \<Rightarrow> map_option (Pair (JArray (acc @ [v]))) (expect TRBrack r))
          else None)"
| "parse_members d ts acc =
     (case member_name ts of
        None \<Rightarrow> None
      | Some (k, ts') \<Rightarrow>
          (case parse_value d ts' of
             None \<Rightarrow> None
           | Some (v, r) \<Rightarrow>
               if length r < length ts' then
                 (case expect TComma r of
                    Some r' \<Rightarrow> parse_members d r' (acc @ [(k, v)])
                  | None \<Rightarrow> map_option (Pair (JObject (acc @ [(k, v)]))) (expect TRBrace r))
               else None))"
  by pat_completeness auto
termination
  by (relation "measures
        [\<lambda>x. case x of Inl (d, ts) \<Rightarrow> length ts | Inr (Inl (d, ts, a)) \<Rightarrow> length ts
                      | Inr (Inr (d, ts, a)) \<Rightarrow> length ts,
         \<lambda>x. case x of Inl _ \<Rightarrow> 0 | Inr _ \<Rightarrow> Suc 0]")
     (auto dest!: expect_shorter member_name_shorter)

text \<open>
  \<open>json_scan\<close>: the value a text denotes, or \<open>None\<close> when the text is not one well-formed
  JSON value (\<^verbatim>\<open>checkValid\<close> fails with a \<^verbatim>\<open>SyntaxError\<close>).
\<close>

definition json_scan :: "string \<Rightarrow> json option" where
  "json_scan s =
     (case tokenize s of
        None \<Rightarrow> None
      | Some ts \<Rightarrow>
          (case parse_value maxNestingDepth ts of
             Some (j, []) \<Rightarrow> Some j
           | _ \<Rightarrow> None))"

subsection \<open>Rendering\<close>

definition hex_digit :: "nat \<Rightarrow> char" where
  "hex_digit n = (if n < 10 then char_of (48 + n) else char_of (87 + n))"

text \<open>
  How \<^verbatim>\<open>json.Marshal\<close> writes a string (\<^verbatim>\<open>appendString\<close>, HTML escaping is on by
  default). A byte below 0x80: the quote and the backslash get a backslash, five control
  characters their short form, the other control characters and \<^verbatim>\<open><\<close>, \<^verbatim>\<open>>\<close>, \<^verbatim>\<open>&\<close>
  the form \<^verbatim>\<open>\u00XY\<close>. From 0x80 on: a byte that starts no well-formed UTF-8 encoding is
  written \<^verbatim>\<open>\ufffd\<close>, U+2028 and U+2029 are written \<^verbatim>\<open>\u2028\<close> and \<^verbatim>\<open>\u2029\<close>, any
  other encoding is written as it is.
\<close>

definition escape_char :: "char \<Rightarrow> string" where
  "escape_char c =
     (if c = CHR 0x22 \<or> c = CHR 0x5C then [CHR 0x5C, c]
      else if c = CHR 0x08 then [CHR 0x5C, CHR ''b'']
      else if c = CHR 0x0C then [CHR 0x5C, CHR ''f'']
      else if c = CHR 0x0A then [CHR 0x5C, CHR ''n'']
      else if c = CHR 0x0D then [CHR 0x5C, CHR ''r'']
      else if c = CHR 0x09 then [CHR 0x5C, CHR ''t'']
      else if (of_char c :: nat) < 0x20 \<or> c = CHR ''<'' \<or> c = CHR ''>'' \<or> c = CHR ''&''
        then [CHR 0x5C, CHR ''u'', CHR ''0'', CHR ''0'',
              hex_digit ((of_char c :: nat) div 16), hex_digit ((of_char c :: nat) mod 16)]
      else [c])"

function escape_string :: "string \<Rightarrow> string" where
  "escape_string [] = []"
| "escape_string (c # cs) =
     (if (of_char c :: nat) < 0x80 then escape_char c @ escape_string cs
      else if rune_len (c # cs) = 0
        then [CHR 0x5C, CHR ''u'', CHR ''f'', CHR ''f'', CHR ''f'', CHR ''d''] @ escape_string cs
      else if c # take 2 cs = [CHR 0xE2, CHR 0x80, CHR 0xA8]
        then [CHR 0x5C, CHR ''u'', CHR ''2'', CHR ''0'', CHR ''2'', CHR ''8'']
             @ escape_string (drop 2 cs)
      else if c # take 2 cs = [CHR 0xE2, CHR 0x80, CHR 0xA9]
        then [CHR 0x5C, CHR ''u'', CHR ''2'', CHR ''0'', CHR ''2'', CHR ''9'']
             @ escape_string (drop 2 cs)
      else c # take (rune_len (c # cs) - 1) cs
           @ escape_string (drop (rune_len (c # cs) - 1) cs))"
  by pat_completeness auto
termination
  by (relation "measure length") auto

definition render_string :: "string \<Rightarrow> string" where
  "render_string s = CHR 0x22 # escape_string s @ [CHR 0x22]"

text \<open>The compact text of a value: no white space, members in the order given.\<close>

fun json_render :: "json \<Rightarrow> string"
  and render_elems :: "json list \<Rightarrow> string"
  and render_members :: "(string \<times> json) list \<Rightarrow> string"
where
  "json_render JNull = ''null''"
| "json_render (JBool b) = (if b then ''true'' else ''false'')"
| "json_render (JNumber l) = l"
| "json_render (JString s) = render_string s"
| "json_render (JArray vs) = CHR ''['' # render_elems vs @ '']''"
| "json_render (JObject ms) = CHR ''{'' # render_members ms @ ''}''"
| "render_elems [] = []"
| "render_elems [v] = json_render v"
| "render_elems (v # w # vs) = json_render v @ CHR '','' # render_elems (w # vs)"
| "render_members [] = []"
| "render_members [(k, v)] = render_string k @ CHR '':'' # json_render v"
| "render_members ((k, v) # m # ms) =
     render_string k @ CHR '':'' # json_render v @ CHR '','' # render_members (m # ms)"

subsection \<open>Rendered values\<close>

text \<open>
  The tokens of the compact text of a value, and the values whose text denotes them: every
  number is a number literal, every string and member name is well-formed UTF-8, and the
  nesting is at most \<open>d\<close> deep. \<open>delim s\<close>: the text \<open>s\<close> does not go on with a character
  of a number.
\<close>

fun tokens :: "json \<Rightarrow> token list"
  and tokens_elems :: "json list \<Rightarrow> token list"
  and tokens_members :: "(string \<times> json) list \<Rightarrow> token list"
where
  "tokens JNull = [TNull]"
| "tokens (JBool b) = [if b then TTrue else TFalse]"
| "tokens (JNumber l) = [TNum l]"
| "tokens (JString s) = [TStr s]"
| "tokens (JArray vs) = TLBrack # tokens_elems vs @ [TRBrack]"
| "tokens (JObject ms) = TLBrace # tokens_members ms @ [TRBrace]"
| "tokens_elems [] = []"
| "tokens_elems [v] = tokens v"
| "tokens_elems (v # w # vs) = tokens v @ TComma # tokens_elems (w # vs)"
| "tokens_members [] = []"
| "tokens_members [(k, v)] = TStr k # TColon # tokens v"
| "tokens_members ((k, v) # m # ms) = TStr k # TColon # tokens v @ TComma # tokens_members (m # ms)"

definition number_literal :: "string \<Rightarrow> bool" where
  "number_literal l = (valid_number l \<and> list_all is_number_char l)"

fun wf_json :: "nat \<Rightarrow> json \<Rightarrow> bool"
  and wf_elems :: "nat \<Rightarrow> json list \<Rightarrow> bool"
  and wf_members :: "nat \<Rightarrow> (string \<times> json) list \<Rightarrow> bool"
where
  "wf_json d JNull = True"
| "wf_json d (JBool b) = True"
| "wf_json d (JNumber l) = number_literal l"
| "wf_json d (JString s) = valid_utf8 s"
| "wf_json d (JArray vs) = (0 < d \<and> wf_elems (d - 1) vs)"
| "wf_json d (JObject ms) = (0 < d \<and> wf_members (d - 1) ms)"
| "wf_elems d [] = True"
| "wf_elems d (v # vs) = (wf_json d v \<and> wf_elems d vs)"
| "wf_members d [] = True"
| "wf_members d ((k, v) # ms) = (valid_utf8 k \<and> wf_json d v \<and> wf_members d ms)"

definition delim :: "string \<Rightarrow> bool" where
  "delim s = (case s of [] \<Rightarrow> True | c # r \<Rightarrow> \<not> is_number_char c)"

section \<open>Integers (strconv)\<close>

text \<open>
  Go's \<^verbatim>\<open>int\<close> and \<^verbatim>\<open>int64\<close> are 64-bit words read as two's complement. \<open>show_int\<close> is
  the decimal text \<^verbatim>\<open>%d\<close> and \<^verbatim>\<open>json.Marshal\<close> write; \<open>ParseInt\<close> is
  \<^verbatim>\<open>strconv.ParseInt(s, 10, 64)\<close> on a JSON number literal: digits only after the sign,
  within the range of the type.
\<close>

type_synonym int64 = "64 word"

function show_nat :: "nat \<Rightarrow> string" where
  "show_nat n =
     (if n < 10 then [char_of (48 + n)] else show_nat (n div 10) @ [char_of (48 + n mod 10)])"
  by pat_completeness auto
termination
  by (relation "measure id") auto

declare show_nat.simps [simp del]

definition show_int :: "int \<Rightarrow> string" where
  "show_int i = (if i < 0 then CHR ''-'' # show_nat (nat (- i)) else show_nat (nat i))"

definition parse_nat :: "string \<Rightarrow> nat" where
  "parse_nat ds = foldl (\<lambda>a c. 10 * a + ((of_char c :: nat) - 48)) 0 ds"

definition parse_digits :: "string \<Rightarrow> nat option" where
  "parse_digits ds = (if ds \<noteq> [] \<and> list_all is_digit ds then Some (parse_nat ds) else None)"

definition ParseInt :: "string \<Rightarrow> int64 option" where
  "ParseInt s =
     (case (case s of
              [] \<Rightarrow> None
            | m # r \<Rightarrow> if m = CHR ''-'' then map_option (\<lambda>n. - int n) (parse_digits r)
                       else map_option int (parse_digits s)) of
        None \<Rightarrow> None
      | Some i \<Rightarrow> if - (2 ^ 63) \<le> i \<and> i < 2 ^ 63 then Some (word_of_int i) else None)"

section \<open>Floating-point numbers (strconv)\<close>

text \<open>
  The proxy never computes with a \<^verbatim>\<open>float64\<close>: it reads one from a number literal and
  writes it back. The handler and the client are modelled for any type of these values and
  any pair of conversions: \<open>ParseFloat\<close> stands for \<^verbatim>\<open>strconv.ParseFloat(s, 64)\<close> on a
  number literal (\<open>None\<close> when it returns an error), \<open>FormatFloat\<close> for the text
  \<^verbatim>\<open>json.Marshal\<close> writes (\<open>None\<close> when it refuses the value). The conversions of Go are
  \<open>strconv64\<close> below.
\<close>

record 'f strconv =
  ParseFloat :: "string \<Rightarrow> 'f option"
  FormatFloat :: "'f \<Rightarrow> string option"

subsection \<open>Reading a float64\<close>

text \<open>
  A \<^verbatim>\<open>float64\<close> is its 64 bits (IEEE 754 binary64): a sign, 11 bits of exponent and 52
  bits of fraction. \<^verbatim>\<open>strconv.ParseFloat\<close> returns the value nearest to the number the
  literal denotes, the one with the even fraction when two are equally near; a number that
  rounds to a value beyond the largest finite one is out of range (\<^verbatim>\<open>ErrRange\<close>), a
  number too small rounds to zero without an error.
\<close>

type_synonym float64 = "64 word"

text \<open>The parts of a number literal: its sign, its digits as a number, and the power of ten.\<close>

definition literal_exponent :: "string \<Rightarrow> int" where
  "literal_exponent cs =
     (case cs of
        [] \<Rightarrow> 0
      | e # r \<Rightarrow>
          (case r of
             [] \<Rightarrow> 0
           | s # ds \<Rightarrow>
               if s = CHR ''-'' then - int (parse_nat ds)
               else if s = CHR ''+'' then int (parse_nat ds)
               else int (parse_nat r)))"

definition literal_parts :: "string \<Rightarrow> bool \<times> nat \<times> int" where
  "literal_parts l =
     (let neg = (take 1 l = ''-'');
          r = (if neg then drop 1 l else l);
          ip = takeWhile is_digit r;
          r1 = dropWhile is_digit r;
          fp = (if take 1 r1 = ''.'' then takeWhile is_digit (drop 1 r1) else []);
          r2 = (if take 1 r1 = ''.'' then dropWhile is_digit (drop 1 r1) else r1)
      in (neg, parse_nat (ip @ fp), literal_exponent r2 - int (length fp)))"

text \<open>
  A positive rational number is a pair \<open>(n, d)\<close> of a numerator and a denominator.
  \<open>scale b e q\<close> is \<open>q\<close> times \<open>b ^ e\<close>; \<open>bits n\<close> is the number of binary digits of \<open>n\<close>;
  \<open>floor_log2 q\<close> is the largest \<open>e\<close> with \<open>2 ^ e \<le> q\<close>; \<open>round_even q\<close> is the integer
  nearest to \<open>q\<close>, the even one of two.
\<close>

definition scale :: "nat \<Rightarrow> int \<Rightarrow> nat \<times> nat \<Rightarrow> nat \<times> nat" where
  "scale b e q = (if 0 \<le> e then (fst q * b ^ nat e, snd q) else (fst q, snd q * b ^ nat (- e)))"

function bits :: "nat \<Rightarrow> nat" where
  "bits n = (if n = 0 then 0 else Suc (bits (n div 2)))"
  by pat_completeness auto
termination
  by (relation "measure id") auto

declare bits.simps [simp del]

definition floor_log2 :: "nat \<times> nat \<Rightarrow> int" where
  "floor_log2 q =
     (let t = int (bits (fst q)) - int (bits (snd q));
          s = scale 2 (- t) q
      in if snd s \<le> fst s then t else t - 1)"

definition round_even :: "nat \<times> nat \<Rightarrow> nat" where
  "round_even q =
     (let n = fst q div snd q; r = fst q mod snd q
      in if 2 * r < snd q then n
         else if snd q < 2 * r then n + 1
         else if even n then n else n + 1)"

text \<open>
  The bits of the value \<open>m * 2 ^ k\<close> with sign \<open>neg\<close>, where either \<open>m < 2 ^ 52\<close> and
  \<open>k = - 1074\<close> (zero and the subnormal values) or \<open>2 ^ 52 \<le> m < 2 ^ 53\<close>.
\<close>

definition float64_bits :: "bool \<Rightarrow> nat \<Rightarrow> int \<Rightarrow> float64" where
  "float64_bits neg m k =
     word_of_nat ((if neg then 2 ^ 63 else 0)
        + (if m < 2 ^ 52 then m else nat (k + 1075) * 2 ^ 52 + (m - 2 ^ 52)))"

definition round_float64 :: "bool \<Rightarrow> nat \<times> nat \<Rightarrow> float64 option" where
  "round_float64 neg q =
     (if fst q = 0 then Some (float64_bits neg 0 (- 1074))
      else
        (let k = max (floor_log2 q - 52) (- 1074);
             m = round_even (scale 2 (- k) q);
             k' = (if m = 2 ^ 53 then k + 1 else k);
             m' = (if m = 2 ^ 53 then 2 ^ 52 else m)
         in if 971 < k' then None else Some (float64_bits neg m' k')))"

definition ParseFloat64 :: "string \<Rightarrow> float64 option" where
  "ParseFloat64 l =
     (case literal_parts l of
        (neg, m, e) \<Rightarrow> round_float64 neg (scale 10 e (m, 1)))"

subsection \<open>Writing a float64\<close>

text \<open>
  \<^verbatim>\<open>json.Marshal\<close> refuses NaN and the infinities (\<^verbatim>\<open>UnsupportedValueError\<close>). It
  writes any other value with the fewest digits that \<^verbatim>\<open>ParseFloat\<close> reads back as the
  same value (\<^verbatim>\<open>strconv.AppendFloat\<close> with precision -1), of these the nearest to the
  value, in the format \<^verbatim>\<open>%e\<close> when the value is below \<^verbatim>\<open>1e-6\<close> or not below
  \<^verbatim>\<open>1e21\<close> and in the format \<^verbatim>\<open>%f\<close> otherwise; the exponent has no leading zero.
\<close>

definition float64_fields :: "float64 \<Rightarrow> bool \<times> nat \<times> nat" where
  "float64_fields x = (2 ^ 63 \<le> unat x, unat x div 2 ^ 52 mod 2048, unat x mod 2 ^ 52)"

definition strip_zeros :: "string \<Rightarrow> string" where
  "strip_zeros ds = rev (dropWhile (\<lambda>c. c = CHR ''0'') (rev ds))"

text \<open>
  \<^verbatim>\<open>fmtF\<close> and \<^verbatim>\<open>fmtE\<close> for the digits \<open>ds\<close> of the number \<open>0.ds * 10 ^ dp\<close>, with as
  many digits after the point as there are.
\<close>

definition fmtF :: "string \<Rightarrow> int \<Rightarrow> string" where
  "fmtF ds dp =
     (if 0 < dp then take (nat dp) ds @ replicate (nat dp - length ds) (CHR ''0'') else ''0'')
     @ (if int (length ds) \<le> dp then []
        else CHR ''.'' # replicate (nat (- dp)) (CHR ''0'') @ drop (nat dp) ds)"

definition fmtE :: "string \<Rightarrow> int \<Rightarrow> string" where
  "fmtE ds dp =
     take 1 ds @ (if 1 < length ds then CHR ''.'' # drop 1 ds else [])
     @ CHR ''e'' # (if dp - 1 < 0 then CHR ''-'' else CHR ''+'') # show_nat (nat \<bar>dp - 1\<bar>)"

text \<open>
  \<open>floor_log10 q\<close> is the largest \<open>e\<close> with \<open>10 ^ e \<le> q\<close>; \<open>nearest q\<close> lists the integers
  next to \<open>q\<close>, the nearest first (the even one when they are equally near); \<open>decimals q n\<close>
  lists the numbers of \<open>n\<close> digits next to \<open>q\<close>, each as its digits without trailing zeros
  and the place of its decimal point.
\<close>

definition floor_log10 :: "nat \<times> nat \<Rightarrow> int" where
  "floor_log10 q =
     (let t = (if snd q \<le> fst q then int (length (show_nat (fst q div snd q))) - 1
               else 1 - int (length (show_nat (snd q div fst q))));
          s = scale 10 (- t) q
      in if snd s \<le> fst s then t else t - 1)"

definition nearest :: "nat \<times> nat \<Rightarrow> nat list" where
  "nearest q =
     (let n = fst q div snd q; r = fst q mod snd q
      in if r = 0 then [n]
         else if 2 * r < snd q then [n, n + 1]
         else if snd q < 2 * r then [n + 1, n]
         else if even n then [n, n + 1] else [n + 1, n])"

definition decimals :: "nat \<times> nat \<Rightarrow> nat \<Rightarrow> (string \<times> int) list" where
  "decimals q n =
     (let s = int n - 1 - floor_log10 q
      in map (\<lambda>c. (strip_zeros (show_nat c), int (length (show_nat c)) - s))
           (nearest (scale 10 s q)))"

definition float_text :: "bool \<Rightarrow> bool \<Rightarrow> string \<times> int \<Rightarrow> string" where
  "float_text neg sci d =
     (if neg then ''-'' else []) @ (if sci then fmtE (fst d) (snd d) else fmtF (fst d) (snd d))"

text \<open>
  \<open>float_texts x\<close> lists the texts to choose from for a finite \<open>x\<close> with the fields
  \<open>(neg, e, f)\<close>, the shortest first (\<^verbatim>\<open>strconv\<close> needs no more than seventeen
  digits). The two bounds are the bits of the values \<^verbatim>\<open>1e-6\<close> and \<^verbatim>\<open>1e21\<close>: values of
  one sign are ordered as their bits are.
\<close>

definition float_texts :: "bool \<times> nat \<times> nat \<Rightarrow> string list" where
  "float_texts x =
     (case x of
        (neg, e, f) \<Rightarrow>
          if e = 0 \<and> f = 0 then [if neg then ''-0'' else ''0'']
          else
            (let q = (if e = 0 then scale 2 (- 1074) (f, 1)
                      else scale 2 (int e - 1075) (2 ^ 52 + f, 1));
                 sci = (e * 2 ^ 52 + f < 0x3EB0C6F7A0B5ED8D \<or>
                        0x444B1AE4D6E2EF50 \<le> e * 2 ^ 52 + f)
             in map (float_text neg sci) (concat (map (decimals q) [1..<18]))))"

definition FormatFloat64 :: "float64 \<Rightarrow> string option" where
  "FormatFloat64 x =
     (if fst (snd (float64_fields x)) = 2047 then None
      else find (\<lambda>l. number_literal l \<and> ParseFloat64 l = Some x)
             (float_texts (float64_fields x)))"

definition strconv64 :: "float64 strconv" where
  "strconv64 = \<lparr>ParseFloat = ParseFloat64, FormatFloat = FormatFloat64\<rparr>"

section \<open>Errors\<close>

text \<open>
  A Go \<^verbatim>\<open>error\<close> is used by the proxy only through \<^verbatim>\<open>err != nil\<close> and through its
  message (\<^verbatim>\<open>%v\<close>, \<^verbatim>\<open>%w\<close>): an error is its message. The errors of encoding/json
  are kept apart by their kind where they arise. The messages the package gives them are
  not modelled: where the client prints one, it takes it from the parameter
  \<open>json_wording\<close>, which gives the message of the error of \<^verbatim>\<open>json.Unmarshal\<close> of a text
  into a ChatCompletionResponse and the message of the error of \<^verbatim>\<open>json.Marshal\<close>.
\<close>

datatype error = ErrorString string

fun Error :: "error \<Rightarrow> string" where
  "Error (ErrorString s) = s"

datatype unmarshal_error = SyntaxError | UnmarshalTypeError

datatype 'f marshal_error = UnsupportedValueError 'f

record 'f json_wording =
  unmarshal_text :: "unmarshal_error \<Rightarrow> string \<Rightarrow> string"
  marshal_text :: "'f marshal_error \<Rightarrow> string"

text \<open>\<^verbatim>\<open>fmt.Errorf("<prefix>%w", err)\<close>: the message is the prefix and the message of \<open>err\<close>.\<close>

definition Errorf_w :: "string \<Rightarrow> string \<Rightarrow> error" where
  "Errorf_w prefix msg = ErrorString (prefix @ msg)"

section \<open>Data model (proxy/main.go, lines 13-55)\<close>

text \<open>
  A slice is \<open>None\<close> when it is \<^verbatim>\<open>nil\<close>; a pointer field is \<open>None\<close> when it is
  \<^verbatim>\<open>nil\<close>. The record \<open>ErrorDetail\<close> is the anonymous struct of \<open>ErrorResponse\<close>.
\<close>

record Message =
  Role :: string
  Content :: string

record 'f ChatCompletionRequest =
  Model :: string
  Messages :: "Message list option"
  Temperature :: "'f option"
  MaxTokens :: "int64 option"
  TopP :: "'f option"
  Stream :: "bool option"

record Choice =
  Index :: int64
  ChoiceMessage :: Message
  FinishReason :: string

record Usage =
  PromptTokens :: int64
  CompletionTokens :: int64
  TotalTokens :: int64

record ChatCompletionResponse =
  ID :: string
  Object :: string
  Created :: int64
  ResponseModel :: string
  Choices :: "Choice list option"
  ResponseUsage :: Usage

record ErrorDetail =
  ErrMessage :: string
  ErrType :: string
  ErrCode :: string

record ErrorResponse =
  ErrorField :: ErrorDetail

definition len :: "'a list option \<Rightarrow> nat" where
  "len s = (case s of None \<Rightarrow> 0 | Some xs \<Rightarrow> length xs)"

text \<open>The zero values (\<^verbatim>\<open>var req ChatCompletionRequest\<close>).\<close>

definition zero_Message :: Message where
  "zero_Message = \<lparr>Role = [], Content = []\<rparr>"

definition zero_ChatCompletionRequest :: "'f ChatCompletionRequest" where
  "zero_ChatCompletionRequest =
     \<lparr>Model = [], Messages = None, Temperature = None, MaxTokens = None, TopP = None,
      Stream = None\<rparr>"

definition zero_Usage :: Usage where
  "zero_Usage = \<lparr>PromptTokens = 0, CompletionTokens = 0, TotalTokens = 0\<rparr>"

definition zero_Choice :: Choice where
  "zero_Choice = \<lparr>Index = 0, ChoiceMessage = zero_Message, FinishReason = []\<rparr>"

definition zero_ChatCompletionResponse :: ChatCompletionResponse where
  "zero_ChatCompletionResponse =
     \<lparr>ID = [], Object = [], Created = 0, ResponseModel = [], Choices = None,
      ResponseUsage = zero_Usage\<rparr>"

definition zero_ErrorResponse :: ErrorResponse where
  "zero_ErrorResponse = \<lparr>ErrorField = \<lparr>ErrMessage = [], ErrType = [], ErrCode = []\<rparr>\<rparr>"



section \<open>Decoding a JSON value into a Go value (encoding/json)\<close>

text \<open>
  \<^verbatim>\<open>json.Unmarshal\<close> stores a value into what is already there:
  \<^item> \<^verbatim>\<open>null\<close> sets a pointer or a slice to \<^verbatim>\<open>nil\<close> and leaves anything else as it is;
  \<^item> a value of the wrong kind, or a number that does not fit, is an
    \<^verbatim>\<open>UnmarshalTypeError\<close> (the package goes on decoding and returns the first such
    error; the callers here drop the value then, so the model stops at it);
  \<^item> an object is stored into a struct member by member, in the order of the text; a member
    whose name matches no field is skipped; a name matches a field when the two are equal
    up to case (\<^verbatim>\<open>foldName\<close>);
  \<^item> an array is stored into a slice element by element; an element the slice already has
    (after a repeated member name) is decoded into, not replaced, and so is an element that
    its backing array still holds beyond its length: while a struct is decoded, a slice
    field is the pair of its elements and of what the array holds beyond them. An empty
    array gives a new, empty slice.
\<close>

definition upper :: "char \<Rightarrow> char" where
  "upper c =
     (if 97 \<le> (of_char c :: nat) \<and> (of_char c :: nat) \<le> 122
      then char_of ((of_char c :: nat) - 32) else c)"

text \<open>
  \<^verbatim>\<open>foldName\<close>: ASCII letters in upper case; the two letters outside ASCII that fold to
  an ASCII letter are U+017F (to S) and U+212A (to K). Every other byte is kept, as
  it cannot match a byte of a field name.
\<close>

function foldName :: "string \<Rightarrow> string" where
  "foldName [] = []"
| "foldName (c # cs) =
     (if c = CHR 0xC5 \<and> take 1 cs = [CHR 0xBF] then CHR ''S'' # foldName (drop 1 cs)
      else if c = CHR 0xE2 \<and> take 2 cs = [CHR 0x84, CHR 0xAA] then CHR ''K'' # foldName (drop 2 cs)
      else upper c # foldName cs)"
  by pat_completeness auto
termination
  by (relation "measure length") auto

definition field_match :: "string \<Rightarrow> string \<Rightarrow> bool" where
  "field_match name key = (foldName key = foldName name)"



definition type_error :: "unmarshal_error + 'a" where
  "type_error = Inl UnmarshalTypeError"

definition decode_string :: "json \<Rightarrow> string \<Rightarrow> unmarshal_error + string" where
  "decode_string j cur =
     (case j of JNull \<Rightarrow> Inr cur | JString s \<Rightarrow> Inr s | _ \<Rightarrow> type_error)"

definition decode_int :: "json \<Rightarrow> int64 \<Rightarrow> unmarshal_error + int64" where
  "decode_int j cur =
     (case j of
        JNull \<Rightarrow> Inr cur
      | JNumber l \<Rightarrow> (case ParseInt l of Some n \<Rightarrow> Inr n | None \<Rightarrow> type_error)
      | _ \<Rightarrow> type_error)"

definition decode_int_ptr :: "json \<Rightarrow> unmarshal_error + int64 option" where
  "decode_int_ptr j =
     (case j of
        JNull \<Rightarrow> Inr None
      | JNumber l \<Rightarrow> (case ParseInt l of Some n \<Rightarrow> Inr (Some n) | None \<Rightarrow> type_error)
      | _ \<Rightarrow> type_error)"

definition decode_float_ptr :: "'f strconv \<Rightarrow> json \<Rightarrow> unmarshal_error + 'f option" where
  "decode_float_ptr fc j =
     (case j of
        JNull \<Rightarrow> Inr None
      | JNumber l \<Rightarrow> (case ParseFloat fc l of Some x \<Rightarrow> Inr (Some x) | None \<Rightarrow> type_error)
      | _ \<Rightarrow> type_error)"

definition decode_bool_ptr :: "json \<Rightarrow> unmarshal_error + bool option" where
  "decode_bool_ptr j =
     (case j of JNull \<Rightarrow> Inr None | JBool b \<Rightarrow> Inr (Some b) | _ \<Rightarrow> type_error)"

fun decode_members ::
  "(string \<Rightarrow> json \<Rightarrow> 'a \<Rightarrow> unmarshal_error + 'a) \<Rightarrow> (string \<times> json) list \<Rightarrow> 'a \<Rightarrow> unmarshal_error + 'a" where
  "decode_members field [] a = Inr a"
| "decode_members field ((k, v) # ms) a =
     (case field k v a of Inl e \<Rightarrow> Inl e | Inr a' \<Rightarrow> decode_members field ms a')"

definition decode_struct ::
  "(string \<Rightarrow> json \<Rightarrow> 'a \<Rightarrow> unmarshal_error + 'a) \<Rightarrow> json \<Rightarrow> 'a \<Rightarrow> unmarshal_error + 'a" where
  "decode_struct field j a =
     (case j of
        JNull \<Rightarrow> Inr a
      | JObject ms \<Rightarrow> decode_members field ms a
      | _ \<Rightarrow> type_error)"

fun decode_elems ::
  "(json \<Rightarrow> 'a \<Rightarrow> unmarshal_error + 'a) \<Rightarrow> 'a \<Rightarrow> json list \<Rightarrow> 'a list \<Rightarrow> unmarshal_error + 'a list" where
  "decode_elems dec z [] old = Inr []"
| "decode_elems dec z (v # vs) old =
     (case dec v (case old of [] \<Rightarrow> z | x # _ \<Rightarrow> x) of
        Inl e \<Rightarrow> Inl e
      | Inr a \<Rightarrow>
          (case decode_elems dec z vs (drop 1 old) of
             Inl e \<Rightarrow> Inl e
           | Inr as \<Rightarrow> Inr (a # as)))"

definition backing :: "'a list option \<times> 'a list \<Rightarrow> 'a list" where
  "backing cur = (case fst cur of None \<Rightarrow> [] | Some xs \<Rightarrow> xs) @ snd cur"

definition decode_slice ::
  "(json \<Rightarrow> 'a \<Rightarrow> unmarshal_error + 'a) \<Rightarrow> 'a \<Rightarrow> json \<Rightarrow> 'a list option \<times> 'a list \<Rightarrow>
     unmarshal_error + 'a list option \<times> 'a list" where
  "decode_slice dec z j cur =
     (case j of
        JNull \<Rightarrow> Inr (None, [])
      | JArray vs \<Rightarrow>
          if vs = [] then Inr (Some [], [])
          else
            (case decode_elems dec z vs (backing cur) of
               Inl e \<Rightarrow> Inl e
             | Inr as \<Rightarrow> Inr (Some as, drop (length vs) (backing cur)))
      | _ \<Rightarrow> type_error)"

text \<open>\<open>store\<close>: the field update after its value decoded.\<close>

definition store :: "unmarshal_error + 'b \<Rightarrow> ('b \<Rightarrow> 'a) \<Rightarrow> unmarshal_error + 'a" where
  "store res upd = (case res of Inl e \<Rightarrow> Inl e | Inr x \<Rightarrow> Inr (upd x))"

definition Message_field :: "string \<Rightarrow> json \<Rightarrow> Message \<Rightarrow> unmarshal_error + Message" where
  "Message_field k v m =
     (if field_match ''role'' k then store (decode_string v (Role m)) (\<lambda>x. m\<lparr>Role := x\<rparr>)
      else if field_match ''content'' k
        then store (decode_string v (Content m)) (\<lambda>x. m\<lparr>Content := x\<rparr>)
      else Inr m)"

definition decode_Message :: "json \<Rightarrow> Message \<Rightarrow> unmarshal_error + Message" where
  "decode_Message = decode_struct Message_field"

text \<open>
  A ChatCompletionRequest that is being decoded: the struct, and what the backing array of
  \<^verbatim>\<open>Messages\<close> holds beyond its length.
\<close>

definition ChatCompletionRequest_field ::
  "'f strconv \<Rightarrow> string \<Rightarrow> json \<Rightarrow> 'f ChatCompletionRequest \<times> Message list \<Rightarrow>
     unmarshal_error + 'f ChatCompletionRequest \<times> Message list"
  where
  "ChatCompletionRequest_field fc k v cur =
     (if field_match ''model'' k
        then store (decode_string v (Model (fst cur))) (\<lambda>x. ((fst cur)\<lparr>Model := x\<rparr>, snd cur))
      else if field_match ''messages'' k
        then store (decode_slice decode_Message zero_Message v (Messages (fst cur), snd cur))
               (\<lambda>x. ((fst cur)\<lparr>Messages := fst x\<rparr>, snd x))
      else if field_match ''temperature'' k
        then store (decode_float_ptr fc v) (\<lambda>x. ((fst cur)\<lparr>Temperature := x\<rparr>, snd cur))
      else if field_match ''max_tokens'' k
        then store (decode_int_ptr v) (\<lambda>x. ((fst cur)\<lparr>MaxTokens := x\<rparr>, snd cur))
      else if field_match ''top_p'' k
        then store (decode_float_ptr fc v) (\<lambda>x. ((fst cur)\<lparr>TopP := x\<rparr>, snd cur))
      else if field_match ''stream'' k
        then store (decode_bool_ptr v) (\<lambda>x. ((fst cur)\<lparr>Stream := x\<rparr>, snd cur))
      else Inr cur)"

definition decode_ChatCompletionRequest ::
  "'f strconv \<Rightarrow> json \<Rightarrow> 'f ChatCompletionRequest \<times> Message list \<Rightarrow>
     unmarshal_error + 'f ChatCompletionRequest \<times> Message list" where
  "decode_ChatCompletionRequest fc = decode_struct (ChatCompletionRequest_field fc)"

definition Usage_field :: "string \<Rightarrow> json \<Rightarrow> Usage \<Rightarrow> unmarshal_error + Usage" where
  "Usage_field k v u =
     (if field_match ''prompt_tokens'' k
        then store (decode_int v (PromptTokens u)) (\<lambda>x. u\<lparr>PromptTokens := x\<rparr>)
      else if field_match ''completion_tokens'' k
        then store (decode_int v (CompletionTokens u)) (\<lambda>x. u\<lparr>CompletionTokens := x\<rparr>)
      else if field_match ''total_tokens'' k
        then store (decode_int v (TotalTokens u)) (\<lambda>x. u\<lparr>TotalTokens := x\<rparr>)
      else Inr u)"

definition decode_Usage :: "json \<Rightarrow> Usage \<Rightarrow> unmarshal_error + Usage" where
  "decode_Usage = decode_struct Usage_field"

definition Choice_field :: "string \<Rightarrow> json \<Rightarrow> Choice \<Rightarrow> unmarshal_error + Choice" where
  "Choice_field k v c =
     (if field_match ''index'' k then store (decode_int v (Index c)) (\<lambda>x. c\<lparr>Index := x\<rparr>)
      else if field_match ''message'' k
        then store (decode_Message v (ChoiceMessage c)) (\<lambda>x. c\<lparr>ChoiceMessage := x\<rparr>)
      else if field_match ''finish_reason'' k
        then store (decode_string v (FinishReason c)) (\<lambda>x. c\<lparr>FinishReason := x\<rparr>)
      else Inr c)"

definition decode_Choice :: "json \<Rightarrow> Choice \<Rightarrow> unmarshal_error + Choice" where
  "decode_Choice = decode_struct Choice_field"

text \<open>
  A ChatCompletionResponse that is being decoded: the struct, and what the backing array of
  \<^verbatim>\<open>Choices\<close> holds beyond its length.
\<close>

definition ChatCompletionResponse_field ::
  "string \<Rightarrow> json \<Rightarrow> ChatCompletionResponse \<times> Choice list \<Rightarrow>
     unmarshal_error + ChatCompletionResponse \<times> Choice list" where
  "ChatCompletionResponse_field k v cur =
     (if field_match ''id'' k
        then store (decode_string v (ID (fst cur))) (\<lambda>x. ((fst cur)\<lparr>ID := x\<rparr>, snd cur))
      else if field_match ''object'' k
        then store (decode_string v (Object (fst cur))) (\<lambda>x. ((fst cur)\<lparr>Object := x\<rparr>, snd cur))
      else if field_match ''created'' k
        then store (decode_int v (Created (fst cur))) (\<lambda>x. ((fst cur)\<lparr>Created := x\<rparr>, snd cur))
      else if field_match ''model'' k
        then store (decode_string v (ResponseModel (fst cur)))
               (\<lambda>x. ((fst cur)\<lparr>ResponseModel := x\<rparr>, snd cur))
      else if field_match ''choices'' k
        then store (decode_slice decode_Choice zero_Choice v (Choices (fst cur), snd cur))
               (\<lambda>x. ((fst cur)\<lparr>Choices := fst x\<rparr>, snd x))
      else if field_match ''usage'' k
        then store (decode_Usage v (ResponseUsage (fst cur)))
               (\<lambda>x. ((fst cur)\<lparr>ResponseUsage := x\<rparr>, snd cur))
      else Inr cur)"

definition decode_ChatCompletionResponse ::
  "json \<Rightarrow> ChatCompletionResponse \<times> Choice list \<Rightarrow>
     unmarshal_error + ChatCompletionResponse \<times> Choice list" where
  "decode_ChatCompletionResponse = decode_struct ChatCompletionResponse_field"

definition ErrorDetail_field :: "string \<Rightarrow> json \<Rightarrow> ErrorDetail \<Rightarrow> unmarshal_error + ErrorDetail" where
  "ErrorDetail_field k v d =
     (if field_match ''message'' k
        then store (decode_string v (ErrMessage d)) (\<lambda>x. d\<lparr>ErrMessage := x\<rparr>)
      else if field_match ''type'' k
        then store (decode_string v (ErrType d)) (\<lambda>x. d\<lparr>ErrType := x\<rparr>)
      else if field_match ''code'' k
        then store (decode_string v (ErrCode d)) (\<lambda>x. d\<lparr>ErrCode := x\<rparr>)
      else Inr d)"

definition ErrorResponse_field ::
  "string \<Rightarrow> json \<Rightarrow> ErrorResponse \<Rightarrow> unmarshal_error + ErrorResponse" where
  "ErrorResponse_field k v r =
     (if field_match ''error'' k
        then store (decode_struct ErrorDetail_field v (ErrorField r)) (\<lambda>x. r\<lparr>ErrorField := x\<rparr>)
      else Inr r)"

definition decode_ErrorResponse :: "json \<Rightarrow> ErrorResponse \<Rightarrow> unmarshal_error + ErrorResponse" where
  "decode_ErrorResponse = decode_struct ErrorResponse_field"

text \<open>
  \<^verbatim>\<open>json.Unmarshal(data, &v)\<close> with \<open>v\<close> a fresh variable: the text is checked first
  (a \<^verbatim>\<open>SyntaxError\<close> before anything is stored), then decoded into the zero value, whose
  slices are \<^verbatim>\<open>nil\<close> and have no backing array. The caller gets the struct.
\<close>

definition Unmarshal :: "(json \<Rightarrow> 'a \<Rightarrow> unmarshal_error + 'a) \<Rightarrow> 'a \<Rightarrow> string \<Rightarrow> unmarshal_error + 'a" where
  "Unmarshal dec z data =
     (case json_scan data of
        None \<Rightarrow> Inl SyntaxError
      | Some j \<Rightarrow> dec j z)"

definition Unmarshal_ChatCompletionRequest ::
  "'f strconv \<Rightarrow> string \<Rightarrow> unmarshal_error + 'f ChatCompletionRequest" where
  "Unmarshal_ChatCompletionRequest fc data =
     (case Unmarshal (decode_ChatCompletionRequest fc) (zero_ChatCompletionRequest, []) data of
        Inl e \<Rightarrow> Inl e
      | Inr cur \<Rightarrow> Inr (fst cur))"

definition Unmarshal_ChatCompletionResponse :: "string \<Rightarrow> unmarshal_error + ChatCompletionResponse" where
  "Unmarshal_ChatCompletionResponse data =
     (case Unmarshal decode_ChatCompletionResponse (zero_ChatCompletionResponse, []) data of
        Inl e \<Rightarrow> Inl e
      | Inr cur \<Rightarrow> Inr (fst cur))"

definition Unmarshal_ErrorResponse :: "string \<Rightarrow> unmarshal_error + ErrorResponse" where
  "Unmarshal_ErrorResponse = Unmarshal decode_ErrorResponse zero_ErrorResponse"

section \<open>Encoding a Go value as a JSON value (encoding/json)\<close>

text \<open>
  \<^verbatim>\<open>json.Marshal\<close> writes the fields of a struct in the order of their declaration,
  under the names of their tags. A field tagged \<^verbatim>\<open>omitempty\<close> is left out when it is
  \<^verbatim>\<open>nil\<close>; a \<^verbatim>\<open>nil\<close> slice without the tag is written \<^verbatim>\<open>null\<close>. Only a
  \<^verbatim>\<open>float64\<close> that JSON cannot express makes it fail.
\<close>

definition encode_Message :: "Message \<Rightarrow> json" where
  "encode_Message m = JObject [(''role'', JString (Role m)), (''content'', JString (Content m))]"

definition encode_slice :: "('a \<Rightarrow> json) \<Rightarrow> 'a list option \<Rightarrow> json" where
  "encode_slice enc s = (case s of None \<Rightarrow> JNull | Some xs \<Rightarrow> JArray (map enc xs))"

definition encode_int :: "int64 \<Rightarrow> json" where
  "encode_int n = JNumber (show_int (sint n))"

text \<open>An \<^verbatim>\<open>omitempty\<close> pointer field: no member, or one member.\<close>

definition omitempty :: "string \<Rightarrow> ('a \<Rightarrow> json) \<Rightarrow> 'a option \<Rightarrow> (string \<times> json) list" where
  "omitempty name enc p = (case p of None \<Rightarrow> [] | Some x \<Rightarrow> [(name, enc x)])"

definition omitempty_float ::
  "'f strconv \<Rightarrow> string \<Rightarrow> 'f option \<Rightarrow> 'f marshal_error + (string \<times> json) list" where
  "omitempty_float fc name p =
     (case p of
        None \<Rightarrow> Inr []
      | Some x \<Rightarrow>
          (case FormatFloat fc x of
             None \<Rightarrow> Inl (UnsupportedValueError x)
           | Some l \<Rightarrow> Inr [(name, JNumber l)]))"

definition encode_ChatCompletionRequest ::
  "'f strconv \<Rightarrow> 'f ChatCompletionRequest \<Rightarrow> 'f marshal_error + json" where
  "encode_ChatCompletionRequest fc r =
     (case omitempty_float fc ''temperature'' (Temperature r) of
        Inl e \<Rightarrow> Inl e
      | Inr temperature \<Rightarrow>
          (case omitempty_float fc ''top_p'' (TopP r) of
             Inl e \<Rightarrow> Inl e
           | Inr top_p \<Rightarrow>
               Inr (JObject
                 ([(''model'', JString (Model r)),
                   (''messages'', encode_slice encode_Message (Messages r))]
                  @ temperature
                  @ omitempty ''max_tokens'' encode_int (MaxTokens r)
                  @ top_p
                  @ omitempty ''stream'' JBool (Stream r)))))"

definition encode_Usage :: "Usage \<Rightarrow> json" where
  "encode_Usage u =
     JObject [(''prompt_tokens'', encode_int (PromptTokens u)),
              (''completion_tokens'', encode_int (CompletionTokens u)),
              (''total_tokens'', encode_int (TotalTokens u))]"

definition encode_Choice :: "Choice \<Rightarrow> json" where
  "encode_Choice c =
     JObject [(''index'', encode_int (Index c)),
              (''message'', encode_Message (ChoiceMessage c)),
              (''finish_reason'', JString (FinishReason c))]"

definition encode_ChatCompletionResponse :: "ChatCompletionResponse \<Rightarrow> json" where
  "encode_ChatCompletionResponse r =
     JObject [(''id'', JString (ID r)),
              (''object'', JString (Object r)),
              (''created'', encode_int (Created r)),
              (''model'', JString (ResponseModel r)),
              (''choices'', encode_slice encode_Choice (Choices r)),
              (''usage'', encode_Usage (ResponseUsage r))]"

text \<open>\<^verbatim>\<open>json.Marshal(req)\<close>, and \<^verbatim>\<open>json.Marshal(resp)\<close> for a pointer (\<^verbatim>\<open>nil\<close> is \<^verbatim>\<open>null\<close>).\<close>

definition Marshal_ChatCompletionRequest ::
  "'f strconv \<Rightarrow> 'f ChatCompletionRequest \<Rightarrow> 'f marshal_error + string" where
  "Marshal_ChatCompletionRequest fc r =
     (case encode_ChatCompletionRequest fc r of
        Inl e \<Rightarrow> Inl e
      | Inr j \<Rightarrow> Inr (json_render j))"

definition Marshal_ChatCompletionResponse :: "ChatCompletionResponse option \<Rightarrow> string" where
  "Marshal_ChatCompletionResponse p =
     json_render (case p of None \<Rightarrow> JNull | Some r \<Rightarrow> encode_ChatCompletionResponse r)"

section \<open>HTTP (net/http)\<close>

text \<open>
  The \<^verbatim>\<open>http.ResponseWriter\<close> the server hands to a handler, as its interface
  documents it: the status line and the header map go out together, once, at the first
  \<^verbatim>\<open>WriteHeader\<close>; a later \<^verbatim>\<open>WriteHeader\<close> and later changes of the header map do
  nothing; \<^verbatim>\<open>Write\<close> calls \<^verbatim>\<open>WriteHeader(http.StatusOK)\<close> first when the header has
  not been written. \<open>code\<close> is \<open>None\<close> until then. \<open>write_error\<close> is the error
  \<^verbatim>\<open>Write\<close> returns when the connection takes no more data (\<open>None\<close> when it does).
\<close>

record ResponseWriter =
  header :: "string \<rightharpoonup> string"
  code :: "nat option"
  sent_header :: "string \<rightharpoonup> string"
  written :: string
  write_error :: "error option"

definition Header_Set :: "string \<Rightarrow> string \<Rightarrow> ResponseWriter \<Rightarrow> ResponseWriter" where
  "Header_Set k v w = w\<lparr>header := (header w)(k \<mapsto> v)\<rparr>"

definition Header_Del :: "string \<Rightarrow> ResponseWriter \<Rightarrow> ResponseWriter" where
  "Header_Del k w = w\<lparr>header := (header w)(k := None)\<rparr>"

definition WriteHeader :: "nat \<Rightarrow> ResponseWriter \<Rightarrow> ResponseWriter" where
  "WriteHeader c w =
     (case code w of
        Some _ \<Rightarrow> w
      | None \<Rightarrow> w\<lparr>code := Some c, sent_header := header w\<rparr>)"

definition Write :: "string \<Rightarrow> ResponseWriter \<Rightarrow> ResponseWriter \<times> error option" where
  "Write data w =
     (let w' = WriteHeader 200 w
      in case write_error w' of
           Some e \<Rightarrow> (w', Some e)
         | None \<Rightarrow> (w'\<lparr>written := written w' @ data\<rparr>, None))"

text \<open>
  \<^verbatim>\<open>http.Error(w, error, code)\<close>: clears \<^verbatim>\<open>Content-Length\<close>, sets a plain-text content
  type, writes the header with \<open>code\<close> and prints the message and a newline; the result of
  that write is dropped.
\<close>

definition http_Error :: "ResponseWriter \<Rightarrow> string \<Rightarrow> nat \<Rightarrow> ResponseWriter" where
  "http_Error w msg c =
     fst (Write (msg @ [CHR 0x0A])
       (WriteHeader c
         (Header_Set ''X-Content-Type-Options'' ''nosniff''
           (Header_Set ''Content-Type'' ''text/plain; charset=utf-8''
             (Header_Del ''Content-Length'' w)))))"

text \<open>
  \<^verbatim>\<open>json.NewEncoder(w).Encode(v)\<close> for a \<^verbatim>\<open>*ChatCompletionResponse\<close>: the text of the
  value and a newline, in one \<^verbatim>\<open>Write\<close>. Marshalling this type cannot fail, so the
  error of \<^verbatim>\<open>Encode\<close> is the error of the write.
\<close>

definition Encode ::
  "ChatCompletionResponse option \<Rightarrow> ResponseWriter \<Rightarrow> ResponseWriter \<times> error option" where
  "Encode v w = Write (Marshal_ChatCompletionResponse v @ [CHR 0x0A]) w"

text \<open>
  The inbound request: its method and its body, which \<^verbatim>\<open>io.ReadAll\<close> reads whole or
  fails to read (\<open>Inl\<close>).
\<close>

record Request =
  Method :: string
  Body :: "error + string"

text \<open>The outbound request and the provider's reply, as the real client sees them.\<close>

record OutRequest =
  OutMethod :: string
  URL :: string
  OutHeader :: "string \<rightharpoonup> string"
  OutBody :: string

record Reply =
  StatusCode :: int
  ReplyBody :: "error + string"

text \<open>
  The network of the real client: \<open>NewRequest_error\<close> is the error of
  \<^verbatim>\<open>http.NewRequest\<close> for a URL (\<open>None\<close> when it parses), \<open>Do\<close> what
  \<^verbatim>\<open>client.Do\<close> returns for a request.
\<close>

record net =
  NewRequest_error :: "string \<Rightarrow> error option"
  Do :: "OutRequest \<Rightarrow> error + Reply"

section \<open>The upstream client (proxy/main.go, lines 57-115)\<close>

text \<open>
  \<^verbatim>\<open>OpenAIClient\<close>: one method, from a request to a pair of a response pointer and an
  error. It may act on the world \<open>'w\<close> outside the proxy, which the model passes through.
\<close>

type_synonym ('f, 'w) OpenAIClient =
  "'f ChatCompletionRequest \<Rightarrow> 'w \<Rightarrow> (ChatCompletionResponse option \<times> error option) \<times> 'w"

record RealOpenAIClient =
  APIKey :: string
  BaseURL :: string

definition NewRealOpenAIClient :: "string \<Rightarrow> RealOpenAIClient" where
  "NewRealOpenAIClient apiKey = \<lparr>APIKey = apiKey, BaseURL = ''https://api.openai.com/v1''\<rparr>"

definition StatusOK :: int where
  "StatusOK = 200"

text \<open>The world of the real client is the list of the requests it has handed to \<^verbatim>\<open>client.Do\<close>.\<close>

definition CreateChatCompletion ::
  "'f strconv \<Rightarrow> 'f json_wording \<Rightarrow> net \<Rightarrow> RealOpenAIClient \<Rightarrow>
     ('f, OutRequest list) OpenAIClient" where
  "CreateChatCompletion fc tx nw c req sent =
     (case Marshal_ChatCompletionRequest fc req of
        Inl err \<Rightarrow>
          ((None, Some (Errorf_w ''failed to marshal request: '' (marshal_text tx err))), sent)
      | Inr jsonData \<Rightarrow>
          (case NewRequest_error nw (BaseURL c @ ''/chat/completions'') of
             Some err \<Rightarrow>
               ((None, Some (Errorf_w ''failed to create request: '' (Error err))), sent)
           | None \<Rightarrow>
               (let httpReq =
                      \<lparr>OutMethod = ''POST'', URL = BaseURL c @ ''/chat/completions'',
                       OutHeader = [''Content-Type'' \<mapsto> ''application/json'',
                                    ''Authorization'' \<mapsto> ''Bearer '' @ APIKey c],
                       OutBody = jsonData\<rparr>
                in case Do nw httpReq of
                     Inl err \<Rightarrow>
                       ((None, Some (Errorf_w ''failed to send request: '' (Error err))),
                        sent @ [httpReq])
                   | Inr resp \<Rightarrow>
                       (case ReplyBody resp of
                          Inl err \<Rightarrow>
                            ((None, Some (Errorf_w ''failed to read response: '' (Error err))),
                             sent @ [httpReq])
                        | Inr body \<Rightarrow>
                            if StatusCode resp \<noteq> StatusOK then
                              (case Unmarshal_ErrorResponse body of
                                 Inl err \<Rightarrow>
                                   ((None,
                                     Some (ErrorString
                                       (''API error (status '' @ show_int (StatusCode resp)
                                        @ ''): '' @ body))),
                                    sent @ [httpReq])
                               | Inr errorResp \<Rightarrow>
                                   ((None,
                                     Some (ErrorString
                                       (''API error: '' @ ErrMessage (ErrorField errorResp)))),
                                    sent @ [httpReq]))
                            else
                              (case Unmarshal_ChatCompletionResponse body of
                                 Inl err \<Rightarrow>
                                   ((None,
                                     Some (Errorf_w ''failed to unmarshal response: ''
                                             (unmarshal_text tx err body))),
                                    sent @ [httpReq])
                               | Inr chatResp \<Rightarrow> ((Some chatResp, None), sent @ [httpReq]))))))"

text \<open>The test double (main_test.go): a fixed answer, no input or output.\<close>

record MockOpenAIClient =
  shouldError :: bool
  response :: "ChatCompletionResponse option"
  err :: "error option"

definition Mock_CreateChatCompletion :: "MockOpenAIClient \<Rightarrow> ('f, 'w) OpenAIClient" where
  "Mock_CreateChatCompletion m req w =
     (if shouldError m then ((None, err m), w) else ((response m, None), w))"

section \<open>The proxy handler (proxy/main.go, lines 117-178)\<close>

text \<open>
  What a call of the handler leaves behind: the response writer, the lines logged, the
  requests passed to the client (in order), whether the body of the request was read, and
  the world of the client.
\<close>

record ('f, 'w) outcome =
  rw :: ResponseWriter
  logged :: "string list"
  calls :: "'f ChatCompletionRequest list"
  body_read :: bool
  world :: "'w"

definition handleChatCompletions ::
  "'f strconv \<Rightarrow> ('f, 'w) OpenAIClient \<Rightarrow> ResponseWriter \<Rightarrow> Request \<Rightarrow> 'w \<Rightarrow> ('f, 'w) outcome"
  where
  "handleChatCompletions fc client w r wd =
     (if Method r \<noteq> ''POST'' then
        \<lparr>rw = http_Error w ''Method not allowed'' 405, logged = [], calls = [],
         body_read = False, world = wd\<rparr>
      else
        (case Body r of
           Inl e \<Rightarrow>
             \<lparr>rw = http_Error w ''Failed to read request body'' 400, logged = [], calls = [],
              body_read = True, world = wd\<rparr>
         | Inr body \<Rightarrow>
             (case Unmarshal_ChatCompletionRequest fc body of
                Inl e \<Rightarrow>
                  \<lparr>rw = http_Error w ''Invalid JSON in request body'' 400, logged = [],
                   calls = [], body_read = True, world = wd\<rparr>
              | Inr req \<Rightarrow>
                  if Model req = [] then
                    \<lparr>rw = http_Error w ''Model field is required'' 400, logged = [],
                     calls = [], body_read = True, world = wd\<rparr>
                  else if len (Messages req) = 0 then
                    \<lparr>rw = http_Error w ''Messages field is required and cannot be empty'' 400,
                     logged = [], calls = [], body_read = True, world = wd\<rparr>
                  else
                    (case client req wd of
                       ((resp, Some e), wd') \<Rightarrow>
                         \<lparr>rw = http_Error w (''OpenAI API error: '' @ Error e) 500,
                          logged = [''OpenAI API error: '' @ Error e], calls = [req],
                          body_read = True, world = wd'\<rparr>
                     | ((resp, None), wd') \<Rightarrow>
                         (case Encode resp (Header_Set ''Content-Type'' ''application/json'' w) of
                            (w', Some e) \<Rightarrow>
                              \<lparr>rw = http_Error w' ''Failed to encode response'' 500,
                               logged = [''Failed to encode response: '' @ Error e],
                               calls = [req], body_read = True, world = wd'\<rparr>
                          | (w', None) \<Rightarrow>
                              \<lparr>rw = w', logged = [], calls = [req], body_read = True,
                               world = wd'\<rparr>)))))"

definition handleHealth :: "ResponseWriter \<Rightarrow> Request \<Rightarrow> ResponseWriter" where
  "handleHealth w r =
     fst (Write (json_render (JObject [(''status'', JString ''healthy'')]) @ [CHR 0x0A])
            (Header_Set ''Content-Type'' ''application/json'' w))"

text \<open>The response writer of a new request; \<open>we\<close> is the error of its writes, if any.\<close>

definition new_ResponseWriter :: "error option \<Rightarrow> ResponseWriter" where
  "new_ResponseWriter we =
     \<lparr>header = Map.empty, code = None, sent_header = Map.empty, written = [],
      write_error = we\<rparr>"

section \<open>A concrete setting for running the model\<close>

text \<open>
  The runs below take \<open>strconv64\<close> for the conversion of floating-point numbers. They meet
  two errors of encoding/json whose message is printed: the \<^verbatim>\<open>SyntaxError\<close> of a text
  whose first byte, a letter, starts no value, and the \<^verbatim>\<open>UnmarshalTypeError\<close> of an
  array in the place of the response; \<open>wording\<close> has the package's messages for these, and
  for a \<^verbatim>\<open>float64\<close> that JSON cannot express. Then a network that refuses every
  connection, and the test double of the tests that never reach the client
  (\<^verbatim>\<open>&MockOpenAIClient{}\<close>).
\<close>

definition wording :: "float64 json_wording" where
  "wording =
     \<lparr>unmarshal_text =
        (\<lambda>e data.
           case e of
             SyntaxError \<Rightarrow>
               ''invalid character '' @ [CHR 0x27] @ take 1 data @ [CHR 0x27]
               @ '' looking for beginning of value''
           | UnmarshalTypeError \<Rightarrow>
               ''json: cannot unmarshal array into Go value of type main.ChatCompletionResponse''),
      marshal_text =
        (\<lambda>e. case e of
               UnsupportedValueError x \<Rightarrow>
                 ''json: unsupported value: ''
                 @ (if snd (snd (float64_fields x)) \<noteq> 0 then ''NaN''
                    else if fst (float64_fields x) then ''-Inf'' else ''+Inf''))\<rparr>"

definition no_network :: net where
  "no_network =
     \<lparr>NewRequest_error = (\<lambda>u. None),
      Do = (\<lambda>q. Inl (ErrorString ''dial tcp: connection refused''))\<rparr>"

definition empty_mock :: MockOpenAIClient where
  "empty_mock = \<lparr>shouldError = False, response = None, err = None\<rparr>"

text \<open>
  The request and the response of the tests (main_test.go), and the text of the request;
  the bits of its temperature are those of \<^verbatim>\<open>0.7\<close>.
\<close>

definition test_request :: "float64 ChatCompletionRequest" where
  "test_request =
     \<lparr>Model = ''gpt-3.5-turbo'',
      Messages = Some [\<lparr>Role = ''user'', Content = ''Hello, how are you?''\<rparr>],
      Temperature = Some 0x3FE6666666666666, MaxTokens = None, TopP = None, Stream = None\<rparr>"

definition test_request_text :: string where
  "test_request_text =
     ''{\"model\":\"gpt-3.5-turbo\",\"messages\":[{\"role\":\"user\",\"content\":\"Hello, how are you?\"}],\"temperature\":0.7}''"


definition POST :: "string \<Rightarrow> Request" where
  "POST body = \<lparr>Method = ''POST'', Body = Inr body\<rparr>"

text \<open>A network that answers every request with the same reply.\<close>

definition answering :: "Reply \<Rightarrow> net" where
  "answering reply = \<lparr>NewRequest_error = (\<lambda>u. None), Do = (\<lambda>q. Inr reply)\<rparr>"

text \<open>
  A valid request with a member that is not a field of ChatCompletionRequest, the struct it
  is decoded into, and the text of that struct.
\<close>

definition extra_member_text :: string where
  "extra_member_text =
     ''{\"model\":\"m\",\"messages\":[{\"role\":\"u\",\"content\":\"c\"}],\"n\":2}''"

definition extra_member_request :: "float64 ChatCompletionRequest" where
  "extra_member_request =
     \<lparr>Model = ''m'', Messages = Some [\<lparr>Role = ''u'', Content = ''c''\<rparr>],
      Temperature = None, MaxTokens = None, TopP = None, Stream = None\<rparr>"

definition forwarded_text :: string where
  "forwarded_text = ''{\"model\":\"m\",\"messages\":[{\"role\":\"u\",\"content\":\"c\"}]}''"







definition rate_limit_text :: string where
  "rate_limit_text =
     ''{\"error\":{\"message\":\"rate limit exceeded\",\"type\":\"requests\",\"code\":\"rate_limit_exceeded\"}}''"




section \<open>Facts about the library model\<close>

lemmas scan_simps =
  json_scan_def maxNestingDepth_def is_space_def is_digit_def is_number_char_def
  valid_number_def valid_int_def valid_frac_def valid_exp_def tcons_def atom_def expect_def
  member_name_def with_prefix_def unescape_def

lemmas decode_simps =
  Unmarshal_def Unmarshal_ChatCompletionRequest_def decode_ChatCompletionRequest_def
  decode_struct_def ChatCompletionRequest_field_def field_match_def store_def
  decode_string_def decode_slice_def backing_def decode_Message_def Message_field_def
  decode_float_ptr_def decode_int_ptr_def decode_bool_ptr_def type_error_def upper_def
  zero_ChatCompletionRequest_def zero_Message_def strconv64_def

lemma code_http_Error_new [simp]: "code (http_Error (new_ResponseWriter we) msg c) = Some c"
  by (simp add: http_Error_def Write_def WriteHeader_def Header_Set_def Header_Del_def
      new_ResponseWriter_def Let_def split: option.splits)

lemma written_http_Error_new [simp]:
  "written (http_Error (new_ResponseWriter we) msg c) =
     (case we of None \<Rightarrow> msg @ [CHR 0x0A] | Some e \<Rightarrow> [])"
  by (simp add: http_Error_def Write_def WriteHeader_def Header_Set_def Header_Del_def
      new_ResponseWriter_def Let_def split: option.splits)

lemma sent_header_http_Error_new [simp]:
  "sent_header (http_Error (new_ResponseWriter we) msg c) ''Content-Type'' =
     Some ''text/plain; charset=utf-8''"
  by (simp add: http_Error_def Write_def WriteHeader_def Header_Set_def Header_Del_def
      new_ResponseWriter_def Let_def split: option.splits)

subsection \<open>Integers are written and read back\<close>

lemma parse_nat_snoc: "parse_nat (ds @ [c]) = 10 * parse_nat ds + ((of_char c :: nat) - 48)"
  by (simp add: parse_nat_def)

lemma of_char_digit: "(n::nat) < 10 \<Longrightarrow> (of_char (char_of (48 + n)) :: nat) = 48 + n"
  by simp

lemma is_digit_char_of: "(n::nat) < 10 \<Longrightarrow> is_digit (char_of (48 + n))"
  by (simp add: is_digit_def)

lemma show_nat_digits: "show_nat n \<noteq> [] \<and> list_all is_digit (show_nat n)"
proof (induction n rule: show_nat.induct)
  case (1 n)
  show ?case
  proof (cases "n < 10")
    case True
    then show ?thesis by (simp add: show_nat.simps [of n] is_digit_char_of)
  next
    case False
    with 1 show ?thesis by (simp add: show_nat.simps [of n] is_digit_char_of)
  qed
qed

lemma parse_nat_show_nat: "parse_nat (show_nat n) = n"
proof (induction n rule: show_nat.induct)
  case (1 n)
  show ?case
  proof (cases "n < 10")
    case True
    then show ?thesis by (simp add: show_nat.simps [of n] parse_nat_def)
  next
    case False
    with 1 have "parse_nat (show_nat (n div 10)) = n div 10" by simp
    with False show ?thesis
      by (simp add: show_nat.simps [of n] parse_nat_snoc)
  qed
qed

lemma parse_digits_show_nat: "parse_digits (show_nat n) = Some n"
  using show_nat_digits [of n] by (simp add: parse_digits_def parse_nat_show_nat)

lemma show_nat_not_minus: "show_nat n = c # cs \<Longrightarrow> c \<noteq> CHR ''-''"
  using show_nat_digits [of n] by (auto simp: is_digit_def)

lemma ParseInt_show_int:
  assumes "- (2 ^ 63) \<le> i" and "i < 2 ^ 63"
  shows "ParseInt (show_int i) = Some (word_of_int i)"
proof (cases "i < 0")
  case True
  then show ?thesis using assms
    by (simp add: ParseInt_def show_int_def parse_digits_show_nat)
next
  case False
  obtain c cs where sn: "show_nat (nat i) = c # cs"
    using show_nat_digits [of "nat i"] by (cases "show_nat (nat i)") auto
  from show_nat_not_minus [OF sn] have "c \<noteq> CHR ''-''" .
  moreover have "parse_digits (c # cs) = Some (nat i)"
    using parse_digits_show_nat [of "nat i"] sn by simp
  ultimately show ?thesis using False assms sn
    by (simp add: ParseInt_def show_int_def)
qed

lemma ParseInt_show_sint: "ParseInt (show_int (sint (n :: int64))) = Some n"
proof -
  have "- (2 ^ 63) \<le> sint n" using sint_ge [of n] by simp
  moreover have "sint n < 2 ^ 63" using sint_lt [of n] by simp
  ultimately show ?thesis using ParseInt_show_int [of "sint n"] by simp
qed

subsection \<open>Decoding what was encoded\<close>


lemma decode_elems_encode:
  assumes "\<And>x z. dec (enc x) z = Inr x"
  shows "decode_elems dec z0 (map enc xs) old = Inr xs"
  by (induction xs arbitrary: old) (simp_all add: assms)

lemma decode_slice_encode:
  assumes "\<And>x z. dec (enc x) z = Inr x"
  shows "decode_slice dec z0 (encode_slice enc s) (None, []) = Inr (s, [])"
  by (cases s)
     (simp_all add: decode_slice_def encode_slice_def backing_def decode_elems_encode [OF assms])

lemma decode_int_encode: "decode_int (encode_int n) cur = Inr n"
  by (simp add: decode_int_def encode_int_def ParseInt_show_sint)

lemma decode_Message_encode: "decode_Message (encode_Message m) z = Inr m"
  by (simp add: decode_Message_def encode_Message_def decode_struct_def Message_field_def
      field_match_def store_def decode_string_def upper_def)

lemma decode_Usage_encode: "decode_Usage (encode_Usage u) z = Inr u"
  by (simp add: decode_Usage_def encode_Usage_def decode_struct_def Usage_field_def
      field_match_def store_def decode_int_encode upper_def)

lemma decode_Choice_encode: "decode_Choice (encode_Choice c) z = Inr c"
  by (simp add: decode_Choice_def encode_Choice_def decode_struct_def Choice_field_def
      field_match_def store_def decode_int_encode decode_string_def decode_Message_encode
      upper_def)

lemma decode_ChatCompletionResponse_encode:
  "decode_ChatCompletionResponse (encode_ChatCompletionResponse r)
     (zero_ChatCompletionResponse, []) = Inr (r, [])"
  by (simp add: decode_ChatCompletionResponse_def encode_ChatCompletionResponse_def
      decode_struct_def ChatCompletionResponse_field_def field_match_def store_def
      decode_int_encode decode_string_def decode_Usage_encode upper_def
      zero_ChatCompletionResponse_def
      decode_slice_encode [of decode_Choice encode_Choice, OF decode_Choice_encode])




subsection \<open>A rendered value scans back\<close>

text \<open>Strings: a well-formed string is read back from what \<open>escape_string\<close> writes.\<close>

lemma rune_len_prefix:
  assumes "rune_len (c # cs) = n" and "n \<noteq> 0"
  shows "rune_len (c # take (n - 1) cs @ x) = n"
proof -
  consider (a) "(of_char c :: nat) < 0x80"
    | (b) "\<not> (of_char c :: nat) < 0x80" "0xC2 \<le> (of_char c :: nat) \<and> (of_char c :: nat) \<le> 0xDF"
    | (c) "\<not> (of_char c :: nat) < 0x80" "\<not> (0xC2 \<le> (of_char c :: nat) \<and> (of_char c :: nat) \<le> 0xDF)"
          "0xE0 \<le> (of_char c :: nat) \<and> (of_char c :: nat) \<le> 0xEF"
    | (d) "\<not> (of_char c :: nat) < 0x80" "\<not> (0xC2 \<le> (of_char c :: nat) \<and> (of_char c :: nat) \<le> 0xDF)"
          "\<not> (0xE0 \<le> (of_char c :: nat) \<and> (of_char c :: nat) \<le> 0xEF)"
          "0xF0 \<le> (of_char c :: nat) \<and> (of_char c :: nat) \<le> 0xF4"
    | (e) "\<not> (of_char c :: nat) < 0x80" "\<not> (0xC2 \<le> (of_char c :: nat) \<and> (of_char c :: nat) \<le> 0xDF)"
          "\<not> (0xE0 \<le> (of_char c :: nat) \<and> (of_char c :: nat) \<le> 0xEF)"
          "\<not> (0xF0 \<le> (of_char c :: nat) \<and> (of_char c :: nat) \<le> 0xF4)"
    by blast
  then show ?thesis
  proof cases
    case a
    with assms show ?thesis by (simp add: rune_len_def)
  next
    case b
    with assms obtain c1 r where "cs = c1 # r" "continuation c1" "n = 2"
      by (cases cs) (auto simp: rune_len_def split: if_splits)
    with b show ?thesis by (simp add: rune_len_def)
  next
    case c
    with assms obtain c1 c2 r where cs: "cs = c1 # c2 # r" and n: "n = 3"
      by (cases cs; cases "tl cs") (auto simp: rune_len_def split: if_splits)
    from assms c cs n have "rune_len (c # c1 # c2 # x) = 3"
      by (simp add: rune_len_def split: if_splits)
    with cs n show ?thesis by simp
  next
    case d
    with assms obtain c1 c2 c3 r where cs: "cs = c1 # c2 # c3 # r" and n: "n = 4"
      by (cases cs; cases "tl cs"; cases "tl (tl cs)") (auto simp: rune_len_def split: if_splits)
    from assms d cs n have "rune_len (c # c1 # c2 # c3 # x) = 4"
      by (simp add: rune_len_def split: if_splits)
    with cs n show ?thesis by simp
  next
    case e
    with assms show ?thesis by (simp add: rune_len_def)
  qed
qed

lemma char_of_utf8: "char_of (226 :: nat) = CHR 0xE2" "char_of (128 :: nat) = CHR 0x80"
  "char_of (168 :: nat) = CHR 0xA8" "char_of (169 :: nat) = CHR 0xA9"
  by (simp_all add: char_of_def bit_Suc_0_iff)

lemma unescape_2028:
  "unescape (CHR ''u'' # CHR ''2'' # CHR ''0'' # CHR ''2'' # CHR ''8'' # s) =
     Some ([CHR 0xE2, CHR 0x80, CHR 0xA8], s)"
  by (simp add: unescape_def unescape_u_def getu4_def hex_val_def EncodeRune_def RuneError_def
      Let_def char_of_utf8)

lemma unescape_2029:
  "unescape (CHR ''u'' # CHR ''2'' # CHR ''0'' # CHR ''2'' # CHR ''9'' # s) =
     Some ([CHR 0xE2, CHR 0x80, CHR 0xA9], s)"
  by (simp add: unescape_def unescape_u_def getu4_def hex_val_def EncodeRune_def RuneError_def
      Let_def char_of_utf8)

lemma rune_len_ascii: "(of_char c :: nat) < 0x80 \<Longrightarrow> rune_len (c # cs) = 1"
  by (simp add: rune_len_def)

lemma rune_len_le: "rune_len s \<le> length s"
  by (simp add: rune_len_def split: list.splits)

lemma EncodeRune_ascii: "(of_char c :: nat) < 0x80 \<Longrightarrow> EncodeRune (of_char c) = [c]"
  by (simp add: EncodeRune_def RuneError_def)

lemma hex_val_hex_digit: "n < 16 \<Longrightarrow> hex_val (hex_digit n) = Some n"
proof -
  assume "n < 16"
  then consider "n < 10" | "10 \<le> n \<and> n < 16" by linarith
  then show ?thesis
  proof cases
    case 1
    then show ?thesis by (simp add: hex_val_def hex_digit_def Let_def)
  next
    case 2
    then show ?thesis by (simp add: hex_val_def hex_digit_def Let_def)
  qed
qed

lemma getu4_escape:
  "getu4 (CHR ''0'') (CHR ''0'') (hex_digit ((of_char c :: nat) div 16))
     (hex_digit ((of_char c :: nat) mod 16)) = Some (of_char c)"
proof -
  have "(of_char c :: nat) mod 256 < 256" by (rule mod_less_divisor) simp
  then have "(of_char c :: nat) < 256" by simp
  then have "(of_char c :: nat) div 16 < 16" by (intro less_mult_imp_div_less) simp
  moreover have "(of_char c :: nat) mod 16 < 16" by simp
  moreover have "hex_val (CHR ''0'') = Some 0" by (simp add: hex_val_def)
  ultimately show ?thesis
    by (simp add: getu4_def hex_val_hex_digit)
qed

lemma unescape_escape_char:
  assumes "escape_char c \<noteq> [c]"
  shows "\<exists>e. escape_char c = CHR 0x5C # e \<and> unescape (e @ s) = Some ([c], s)"
proof -
  consider (q) "c = CHR 0x22 \<or> c = CHR 0x5C"
    | (b) "c = CHR 0x08" | (f) "c = CHR 0x0C" | (n) "c = CHR 0x0A" | (r) "c = CHR 0x0D"
    | (t) "c = CHR 0x09"
    | (u) "c \<noteq> CHR 0x22" "c \<noteq> CHR 0x5C" "c \<noteq> CHR 0x08" "c \<noteq> CHR 0x0C" "c \<noteq> CHR 0x0A"
          "c \<noteq> CHR 0x0D" "c \<noteq> CHR 0x09"
          "(of_char c :: nat) < 0x20 \<or> c = CHR ''<'' \<or> c = CHR ''>'' \<or> c = CHR ''&''"
    using assms by (auto simp: escape_char_def split: if_splits)
  then show ?thesis
  proof cases
    case q
    then show ?thesis by (auto simp: escape_char_def unescape_def)
  next
    case b
    then show ?thesis by (simp add: escape_char_def unescape_def)
  next
    case f
    then show ?thesis by (simp add: escape_char_def unescape_def)
  next
    case n
    then show ?thesis by (simp add: escape_char_def unescape_def)
  next
    case r
    then show ?thesis by (simp add: escape_char_def unescape_def)
  next
    case t
    then show ?thesis by (simp add: escape_char_def unescape_def)
  next
    case u
    from u(8) have small: "(of_char c :: nat) < 0x80" by auto
    then have ns: "\<not> 0xD800 \<le> (of_char c :: nat)" by simp
    have "unescape_u (CHR ''0'' # CHR ''0'' # hex_digit ((of_char c :: nat) div 16) #
             hex_digit ((of_char c :: nat) mod 16) # s) = Some ([c], s)"
      using ns by (simp add: unescape_u_def getu4_escape EncodeRune_ascii [OF small])
    with u show ?thesis
      by (simp add: escape_char_def unescape_def)
  qed
qed

lemma escape_char_plain:
  assumes "escape_char c = [c]"
  shows "c \<noteq> CHR 0x22 \<and> c \<noteq> CHR 0x5C \<and> \<not> (of_char c :: nat) < 0x20"
  using assms by (auto simp: escape_char_def split: if_splits)

lemma lex_string_escaped:
  "valid_utf8 s \<Longrightarrow> lex_string (escape_string s @ CHR 0x22 # rest) = Some (s, rest)"
proof (induction s rule: valid_utf8.induct)
  case 1
  show ?case by simp
next
  case (2 c cs)
  let ?n = "rune_len (c # cs)"
  from "2.prems" have nz: "?n \<noteq> 0" and v: "valid_utf8 (drop (?n - 1) cs)"
    by (simp_all add: valid_utf8.simps)
  from "2.IH" [OF v]
  have ih: "lex_string (escape_string (drop (?n - 1) cs) @ CHR 0x22 # rest) =
              Some (drop (?n - 1) cs, rest)" .
  show ?case
  proof (cases "(of_char c :: nat) < 0x80")
    case True
    then have n1: "?n = 1" by (rule rune_len_ascii)
    with ih have ih1: "lex_string (escape_string cs @ CHR 0x22 # rest) = Some (cs, rest)" by simp
    show ?thesis
    proof (cases "escape_char c = [c]")
      case e: True
      from escape_char_plain [OF e] ih1 True e show ?thesis
        by (simp add: with_prefix_def)
    next
      case False
      from unescape_escape_char [OF False, of "escape_string cs @ CHR 0x22 # rest"]
      obtain e where e: "escape_char c = CHR 0x5C # e"
        and u: "unescape (e @ escape_string cs @ CHR 0x22 # rest) =
                  Some ([c], escape_string cs @ CHR 0x22 # rest)"
        by blast
      from e u ih1 True show ?thesis
        by (simp add: with_prefix_def)
    qed
  next
    case na: False
    then have c: "c \<noteq> CHR 0x22" "c \<noteq> CHR 0x5C" "\<not> (of_char c :: nat) < 0x20"
      by auto
    from rune_len_le [of "c # cs"] have le: "?n - 1 \<le> length cs" by simp
    show ?thesis
    proof (cases "c # take 2 cs = [CHR 0xE2, CHR 0x80, CHR 0xA8]")
      case True
      then have cs: "c = CHR 0xE2" "take 2 cs = [CHR 0x80, CHR 0xA8]" by simp_all
      then obtain r where r: "cs = CHR 0x80 # CHR 0xA8 # r"
        by (cases cs; cases "tl cs") (auto split: if_splits)
      with cs have n3: "?n = 3" by (simp add: rune_len_def continuation_def)
      from ih n3 r have "lex_string (escape_string r @ CHR 0x22 # rest) = Some (r, rest)" by simp
      with na nz True cs r show ?thesis
        by (simp add: unescape_2028 with_prefix_def)
    next
      case n8: False
      show ?thesis
      proof (cases "c # take 2 cs = [CHR 0xE2, CHR 0x80, CHR 0xA9]")
        case True
        then have cs: "c = CHR 0xE2" "take 2 cs = [CHR 0x80, CHR 0xA9]" by simp_all
        then obtain r where r: "cs = CHR 0x80 # CHR 0xA9 # r"
          by (cases cs; cases "tl cs") (auto split: if_splits)
        with cs have n3: "?n = 3" by (simp add: rune_len_def continuation_def)
        from ih n3 r have "lex_string (escape_string r @ CHR 0x22 # rest) = Some (r, rest)" by simp
        with na nz True cs r show ?thesis
          by (simp add: unescape_2029 with_prefix_def)
      next
        case n9: False
        let ?x = "escape_string (drop (?n - 1) cs) @ CHR 0x22 # rest"
        have p: "rune_len (c # take (?n - 1) cs @ ?x) = ?n"
          by (rule rune_len_prefix [OF refl nz])
        have e: "escape_string (c # cs) = c # take (?n - 1) cs @ escape_string (drop (?n - 1) cs)"
          using na nz n8 n9 by simp
        have "lex_string (c # take (?n - 1) cs @ ?x) =
                with_prefix (c # take (?n - 1) cs) (lex_string ?x)"
          using c na nz p le by (simp del: rune_len_def)
        with ih e show ?thesis
          by (simp add: with_prefix_def)
      qed
    qed
  qed
qed

lemma lex_render_string:
  "valid_utf8 s \<Longrightarrow> tokenize (render_string s @ rest) = tcons (TStr s) (tokenize rest)"
  by (simp add: render_string_def lex_string_escaped is_space_def)


text \<open>Numbers.\<close>

lemma number_literal_first:
  assumes "number_literal l"
  obtains c cs where "l = c # cs" "c = CHR ''-'' \<or> is_digit c" "list_all is_number_char cs"
proof -
  from assms obtain c cs where l: "l = c # cs"
    by (cases l) (auto simp: number_literal_def valid_number_def)
  from assms l have "c = CHR ''-'' \<or> is_digit c"
    by (auto simp: number_literal_def valid_number_def valid_int_def is_digit_def
        split: if_splits)
  moreover from assms l have "list_all is_number_char cs"
    by (simp add: number_literal_def)
  ultimately show thesis using l that by blast
qed

lemma takeWhile_delim:
  assumes "list_all is_number_char cs" and "delim s"
  shows "takeWhile is_number_char (cs @ s) = cs \<and> dropWhile is_number_char (cs @ s) = s"
proof -
  from assms(2) have "takeWhile is_number_char s = [] \<and> dropWhile is_number_char s = s"
    by (cases s) (simp_all add: delim_def)
  with assms(1) show ?thesis
    by (simp add: takeWhile_append2 dropWhile_append2 list_all_iff)
qed

lemma lex_number:
  assumes "number_literal l" and "delim s"
  shows "tokenize (l @ s) = tcons (TNum l) (tokenize s)"
proof -
  from assms(1) obtain c cs where l: "l = c # cs" and c: "c = CHR ''-'' \<or> is_digit c"
    and cs: "list_all is_number_char cs"
    by (rule number_literal_first)
  from c have n: "\<not> is_space c" "c \<noteq> CHR ''{''" "c \<noteq> CHR ''}''" "c \<noteq> CHR ''[''" "c \<noteq> CHR '']''"
    "c \<noteq> CHR '':''" "c \<noteq> CHR '',''" "c \<noteq> CHR 0x22"
    by (auto simp: is_digit_def is_space_def)
  from assms(1) l have v: "valid_number (c # cs)" by (simp add: number_literal_def)
  from takeWhile_delim [OF cs assms(2)] n c v show ?thesis
    by (simp add: l)
qed

text \<open>Whole texts.\<close>

lemma tcons_map: "tcons t (map_option ((@) ts) r) = map_option ((@) (t # ts)) r"
  by (cases r) (simp_all add: tcons_def)

lemma map_tcons: "map_option ((@) ts) (tcons t r) = map_option ((@) (ts @ [t])) r"
  by (cases r) (simp_all add: tcons_def)

lemma map_map_append: "map_option ((@) ts) (map_option ((@) us) r) = map_option ((@) (ts @ us)) r"
  by (cases r) simp_all

lemma delim_punct [simp]:
  "delim (CHR '','' # s)" "delim (CHR '']'' # s)" "delim (CHR ''}'' # s)" "delim []"
  by (simp_all add: delim_def is_number_char_def is_digit_def)

lemma lex_punct:
  "tokenize (CHR ''['' # s) = tcons TLBrack (tokenize s)"
  "tokenize (CHR '']'' # s) = tcons TRBrack (tokenize s)"
  "tokenize (CHR ''{'' # s) = tcons TLBrace (tokenize s)"
  "tokenize (CHR ''}'' # s) = tcons TRBrace (tokenize s)"
  "tokenize (CHR '','' # s) = tcons TComma (tokenize s)"
  "tokenize (CHR '':'' # s) = tcons TColon (tokenize s)"
  by (simp_all add: is_space_def)

lemma lex_literals:
  "tokenize (CHR ''n'' # CHR ''u'' # CHR ''l'' # CHR ''l'' # s) = tcons TNull (tokenize s)"
  "tokenize (CHR ''t'' # CHR ''r'' # CHR ''u'' # CHR ''e'' # s) = tcons TTrue (tokenize s)"
  "tokenize (CHR ''f'' # CHR ''a'' # CHR ''l'' # CHR ''s'' # CHR ''e'' # s) = tcons TFalse (tokenize s)"
  by (simp_all add: is_space_def is_digit_def)

lemma map_option_Nil [simp]: "map_option ((@) []) r = r"
  by (cases r) simp_all

lemma lex_render:
  "(\<forall>d s. wf_json d j \<longrightarrow> delim s \<longrightarrow>
      tokenize (json_render j @ s) = map_option ((@) (tokens j)) (tokenize s))"
  "(\<forall>d s. wf_elems d vs \<longrightarrow> delim s \<longrightarrow>
      tokenize (render_elems vs @ s) = map_option ((@) (tokens_elems vs)) (tokenize s))"
  "(\<forall>d s. wf_members d ms \<longrightarrow> delim s \<longrightarrow>
      tokenize (render_members ms @ s) = map_option ((@) (tokens_members ms)) (tokenize s))"
proof (induction j and vs and ms rule: json_render_render_elems_render_members.induct)
  case 1
  show ?case by (simp add: lex_literals tcons_def del: tokenize.simps)
next
  case (2 b)
  show ?case by (cases b) (simp_all add: lex_literals tcons_def del: tokenize.simps)
next
  case (3 l)
  show ?case by (simp add: lex_number tcons_def del: tokenize.simps)
next
  case (4 s)
  show ?case by (simp add: lex_render_string tcons_def del: tokenize.simps)
next
  case (5 vs)
  show ?case
  proof (intro allI impI)
    fix d s
    assume w: "wf_json d (JArray vs)" and "delim s"
    then have "wf_elems (d - 1) vs" by simp
    with 5 delim_punct(2) [of s] have "tokenize (render_elems vs @ CHR '']'' # s) =
        map_option ((@) (tokens_elems vs)) (tokenize (CHR '']'' # s))"
      by blast
    then show "tokenize (json_render (JArray vs) @ s) = map_option ((@) (tokens (JArray vs))) (tokenize s)"
      by (simp add: lex_punct tcons_map map_tcons del: tokenize.simps)
  qed
next
  case (6 ms)
  show ?case
  proof (intro allI impI)
    fix d s
    assume w: "wf_json d (JObject ms)" and "delim s"
    then have "wf_members (d - 1) ms" by simp
    with 6 delim_punct(3) [of s] have "tokenize (render_members ms @ CHR ''}'' # s) =
        map_option ((@) (tokens_members ms)) (tokenize (CHR ''}'' # s))"
      by blast
    then show "tokenize (json_render (JObject ms) @ s) = map_option ((@) (tokens (JObject ms))) (tokenize s)"
      by (simp add: lex_punct tcons_map map_tcons del: tokenize.simps)
  qed
next
  case 7
  show ?case by (simp add: option.map_ident)
next
  case (8 v)
  then show ?case by (simp del: tokenize.simps)
next
  case (9 v w vs)
  show ?case
  proof (intro allI impI)
    fix d s
    assume wf: "wf_elems d (v # w # vs)" and ds: "delim s"
    then have wv: "wf_json d v" and wr: "wf_elems d (w # vs)" by simp_all
    from 9(1) wv delim_punct(1) [of "render_elems (w # vs) @ s"]
    have "tokenize (json_render v @ CHR '','' # render_elems (w # vs) @ s) =
        map_option ((@) (tokens v)) (tokenize (CHR '','' # render_elems (w # vs) @ s))"
      by blast
    moreover from 9(2) wr ds have "tokenize (render_elems (w # vs) @ s) =
        map_option ((@) (tokens_elems (w # vs))) (tokenize s)"
      by blast
    ultimately show "tokenize (render_elems (v # w # vs) @ s) =
        map_option ((@) (tokens_elems (v # w # vs))) (tokenize s)"
      by (simp add: lex_punct tcons_map map_tcons map_map_append del: tokenize.simps)
  qed
next
  case 10
  show ?case by (simp add: option.map_ident)
next
  case (11 k v)
  show ?case
  proof (intro allI impI)
    fix d s
    assume wf: "wf_members d [(k, v)]" and ds: "delim s"
    then have "wf_json d v" and k: "valid_utf8 k" by simp_all
    with 11 ds have "tokenize (json_render v @ s) = map_option ((@) (tokens v)) (tokenize s)" by blast
    then show "tokenize (render_members [(k, v)] @ s) =
        map_option ((@) (tokens_members [(k, v)])) (tokenize s)"
      by (simp add: lex_punct lex_render_string [OF k] tcons_map map_tcons map_map_append
          del: tokenize.simps)
  qed
next
  case (12 k v m ms)
  show ?case
  proof (intro allI impI)
    fix d s
    assume wf: "wf_members d ((k, v) # m # ms)" and ds: "delim s"
    then have wv: "wf_json d v" and wr: "wf_members d (m # ms)" and k: "valid_utf8 k"
      by simp_all
    from 12(1) wv delim_punct(1) [of "render_members (m # ms) @ s"]
    have "tokenize (json_render v @ CHR '','' # render_members (m # ms) @ s) =
        map_option ((@) (tokens v)) (tokenize (CHR '','' # render_members (m # ms) @ s))"
      by blast
    moreover from 12(2) wr ds have "tokenize (render_members (m # ms) @ s) =
        map_option ((@) (tokens_members (m # ms))) (tokenize s)"
      by blast
    ultimately show "tokenize (render_members ((k, v) # m # ms) @ s) =
        map_option ((@) (tokens_members ((k, v) # m # ms))) (tokenize s)"
      by (simp add: lex_punct lex_render_string [OF k] tcons_map map_tcons map_map_append
          del: tokenize.simps)
  qed
qed


text \<open>Token lists.\<close>

lemma tokens_first:
  "\<exists>t r. tokens j = t # r \<and> t \<noteq> TRBrack \<and> t \<noteq> TRBrace"
  by (cases j) simp_all

lemma tokens_elems_first:
  "vs \<noteq> [] \<Longrightarrow> \<exists>t r. tokens_elems vs = t # r \<and> t \<noteq> TRBrack"
proof (cases vs)
  case Nil
  assume "vs \<noteq> []"
  with Nil show ?thesis by simp
next
  case (Cons v ws)
  from tokens_first [of v] obtain t r where "tokens v = t # r" "t \<noteq> TRBrack" by blast
  with Cons show ?thesis by (cases ws) simp_all
qed

lemma tokens_members_first:
  "ms \<noteq> [] \<Longrightarrow> \<exists>k r. tokens_members ms = TStr k # r"
proof (cases ms)
  case Nil
  assume "ms \<noteq> []"
  with Nil show ?thesis by simp
next
  case (Cons m ws)
  obtain k v where "m = (k, v)" by (cases m)
  with Cons show ?thesis by (cases ws) simp_all
qed

lemma parse_value_array:
  assumes "0 < d"
  shows "parse_value d (TLBrack # ts) =
           (case expect TRBrack ts of
              Some r \<Rightarrow> Some (JArray [], r)
            | None \<Rightarrow> parse_elems (d - 1) ts [])"
  using assms by simp

lemma parse_value_object:
  assumes "0 < d"
  shows "parse_value d (TLBrace # ts) =
           (case expect TRBrace ts of
              Some r \<Rightarrow> Some (JObject [], r)
            | None \<Rightarrow> parse_members (d - 1) ts [])"
  using assms by simp

lemma parse_elems_step:
  assumes "parse_value d (us @ t # ts) = Some (v, t # ts)" and "us \<noteq> []"
  shows "parse_elems d (us @ t # ts) acc =
           (case expect TComma (t # ts) of
              Some r' \<Rightarrow> parse_elems d r' (acc @ [v])
            | None \<Rightarrow> map_option (Pair (JArray (acc @ [v]))) (expect TRBrack (t # ts)))"
proof -
  from assms(2) have "length (t # ts) < length (us @ t # ts)" by (cases us) simp_all
  with assms(1) show ?thesis
    by (subst parse_elems.simps) simp
qed

lemma parse_members_step:
  assumes "parse_value d (us @ t # ts) = Some (v, t # ts)" and "us \<noteq> []"
  shows "parse_members d (TStr k # TColon # us @ t # ts) acc =
           (case expect TComma (t # ts) of
              Some r' \<Rightarrow> parse_members d r' (acc @ [(k, v)])
            | None \<Rightarrow> map_option (Pair (JObject (acc @ [(k, v)]))) (expect TRBrace (t # ts)))"
proof -
  from assms(2) have "length (t # ts) < length (us @ t # ts)" by (cases us) simp_all
  with assms(1) show ?thesis
    by (subst parse_members.simps) (simp add: member_name_def expect_def)
qed

lemma tokens_nonempty [simp]: "tokens j \<noteq> []"
  using tokens_first [of j] by auto

lemma parse_tokens:
  "(\<forall>d ts. wf_json d j \<longrightarrow> parse_value d (tokens j @ ts) = Some (j, ts))"
  "(\<forall>d ts acc. vs \<noteq> [] \<longrightarrow> wf_elems d vs \<longrightarrow>
      parse_elems d (tokens_elems vs @ TRBrack # ts) acc = Some (JArray (acc @ vs), ts))"
  "(\<forall>d ts acc. ms \<noteq> [] \<longrightarrow> wf_members d ms \<longrightarrow>
      parse_members d (tokens_members ms @ TRBrace # ts) acc = Some (JObject (acc @ ms), ts))"
proof (induction j and vs and ms rule: tokens_tokens_elems_tokens_members.induct)
  case 1
  show ?case by (simp add: atom_def)
next
  case (2 b)
  show ?case by (simp add: atom_def)
next
  case (3 l)
  show ?case by (simp add: atom_def)
next
  case (4 s)
  show ?case by (simp add: atom_def)
next
  case (5 vs)
  show ?case
  proof (intro allI impI)
    fix d ts
    assume w: "wf_json d (JArray vs)"
    then have d: "0 < d" and we: "wf_elems (d - 1) vs" by simp_all
    show "parse_value d (tokens (JArray vs) @ ts) = Some (JArray vs, ts)"
    proof (cases "vs = []")
      case True
      with d show ?thesis
        by (simp add: parse_value_array expect_def del: parse_value.simps)
    next
      case False
      from tokens_elems_first [OF False] obtain t r where
        "tokens_elems vs = t # r" "t \<noteq> TRBrack" by blast
      then have "expect TRBrack (tokens_elems vs @ TRBrack # ts) = None"
        by (simp add: expect_def)
      moreover from 5 False we
      have "parse_elems (d - 1) (tokens_elems vs @ TRBrack # ts) [] = Some (JArray ([] @ vs), ts)"
        by blast
      ultimately show ?thesis using d
        by (simp add: parse_value_array del: parse_value.simps parse_elems.simps)
    qed
  qed
next
  case (6 ms)
  show ?case
  proof (intro allI impI)
    fix d ts
    assume w: "wf_json d (JObject ms)"
    then have d: "0 < d" and we: "wf_members (d - 1) ms" by simp_all
    show "parse_value d (tokens (JObject ms) @ ts) = Some (JObject ms, ts)"
    proof (cases "ms = []")
      case True
      with d show ?thesis
        by (simp add: parse_value_object expect_def del: parse_value.simps)
    next
      case False
      from tokens_members_first [OF False] obtain k r where
        "tokens_members ms = TStr k # r" by blast
      then have "expect TRBrace (tokens_members ms @ TRBrace # ts) = None"
        by (simp add: expect_def)
      moreover from 6 False we
      have "parse_members (d - 1) (tokens_members ms @ TRBrace # ts) [] =
              Some (JObject ([] @ ms), ts)"
        by blast
      ultimately show ?thesis using d
        by (simp add: parse_value_object del: parse_value.simps parse_members.simps)
    qed
  qed
next
  case 7
  show ?case by simp
next
  case (8 v)
  show ?case
  proof (intro allI impI)
    fix d ts acc
    assume "wf_elems d [v]"
    then have "wf_json d v" by simp
    with 8 have p: "parse_value d (tokens v @ TRBrack # ts) = Some (v, TRBrack # ts)" by blast
    show "parse_elems d (tokens_elems [v] @ TRBrack # ts) acc = Some (JArray (acc @ [v]), ts)"
      using parse_elems_step [OF p tokens_nonempty, of acc]
      by (simp add: expect_def del: parse_elems.simps)
  qed
next
  case (9 v w vs)
  show ?case
  proof (intro allI impI)
    fix d ts acc
    assume "wf_elems d (v # w # vs)"
    then have wv: "wf_json d v" and wr: "wf_elems d (w # vs)" by simp_all
    from 9(1) wv
    have p: "parse_value d (tokens v @ TComma # tokens_elems (w # vs) @ TRBrack # ts) =
               Some (v, TComma # tokens_elems (w # vs) @ TRBrack # ts)"
      by blast
    from 9(2) wr
    have q: "parse_elems d (tokens_elems (w # vs) @ TRBrack # ts) (acc @ [v]) =
               Some (JArray ((acc @ [v]) @ w # vs), ts)"
      by blast
    show "parse_elems d (tokens_elems (v # w # vs) @ TRBrack # ts) acc =
            Some (JArray (acc @ v # w # vs), ts)"
      using parse_elems_step [OF p tokens_nonempty, of acc] q
      by (simp add: expect_def del: parse_elems.simps)
  qed
next
  case 10
  show ?case by simp
next
  case (11 k v)
  show ?case
  proof (intro allI impI)
    fix d ts acc
    assume "wf_members d [(k, v)]"
    then have "wf_json d v" by simp
    with 11 have p: "parse_value d (tokens v @ TRBrace # ts) = Some (v, TRBrace # ts)" by blast
    show "parse_members d (tokens_members [(k, v)] @ TRBrace # ts) acc =
            Some (JObject (acc @ [(k, v)]), ts)"
      using parse_members_step [OF p tokens_nonempty, of k acc]
      by (simp add: expect_def del: parse_members.simps)
  qed
next
  case (12 k v m ms)
  show ?case
  proof (intro allI impI)
    fix d ts acc
    assume "wf_members d ((k, v) # m # ms)"
    then have wv: "wf_json d v" and wr: "wf_members d (m # ms)" by simp_all
    from 12(1) wv
    have p: "parse_value d (tokens v @ TComma # tokens_members (m # ms) @ TRBrace # ts) =
               Some (v, TComma # tokens_members (m # ms) @ TRBrace # ts)"
      by blast
    from 12(2) wr
    have q: "parse_members d (tokens_members (m # ms) @ TRBrace # ts) (acc @ [(k, v)]) =
               Some (JObject ((acc @ [(k, v)]) @ m # ms), ts)"
      by blast
    show "parse_members d (tokens_members ((k, v) # m # ms) @ TRBrace # ts) acc =
            Some (JObject (acc @ (k, v) # m # ms), ts)"
      using parse_members_step [OF p tokens_nonempty, of k acc] q
      by (simp add: expect_def del: parse_members.simps)
  qed
qed



lemma scan_render_newline:
  assumes "wf_json maxNestingDepth j"
  shows "json_scan (json_render j @ [CHR 0x0A]) = Some j"
proof -
  have d: "delim [CHR 0x0A]" by (simp add: delim_def is_number_char_def is_digit_def)
  have e: "tokenize [CHR 0x0A] = Some []" by (simp add: is_space_def)
  from lex_render(1) [of j] assms d
  have "tokenize (json_render j @ [CHR 0x0A]) = map_option ((@) (tokens j)) (tokenize [CHR 0x0A])"
    by blast
  then have l: "tokenize (json_render j @ [CHR 0x0A]) = Some (tokens j)" by (simp only: e) simp
  from parse_tokens(1) [of j] assms
  have "parse_value maxNestingDepth (tokens j @ []) = Some (j, [])" by blast
  with l show ?thesis by (simp add: json_scan_def)
qed














subsection \<open>A member changes only its own field\<close>







subsection \<open>The conversions of float64\<close>




lemmas parse_float_simps =
  ParseFloat64_def literal_parts_def literal_exponent_def parse_nat_def is_digit_def
  round_float64_def floor_log2_def scale_def round_even_def float64_bits_def Let_def bits.simps






lemma ParseFloat64_07: "ParseFloat64 ''0.7'' = Some 0x3FE6666666666666"
  by (simp add: parse_float_simps)






subsection \<open>Writing the response\<close>

lemma unmarshal_test_request:
  "Unmarshal_ChatCompletionRequest strconv64 test_request_text = Inr test_request"
  by (simp add: test_request_text_def test_request_def scan_simps decode_simps ParseFloat64_07)



subsection \<open>The request of the marshalling test\<close>







subsection \<open>What the handler passes on\<close>

lemmas render_simps = render_string_def escape_char_def hex_digit_def

lemma CreateChatCompletion_sends:
  assumes "Marshal_ChatCompletionRequest fc req = Inr jsonData"
    and "NewRequest_error nw (BaseURL c @ ''/chat/completions'') = None"
  shows "snd (CreateChatCompletion fc tx nw c req sent) =
           sent @ [\<lparr>OutMethod = ''POST'', URL = BaseURL c @ ''/chat/completions'',
                    OutHeader = [''Content-Type'' \<mapsto> ''application/json'',
                                 ''Authorization'' \<mapsto> ''Bearer '' @ APIKey c],
                    OutBody = jsonData\<rparr>]"
  using assms by (simp add: CreateChatCompletion_def Let_def split: sum.splits)

lemma handler_calls_client_once:
  assumes "Method r = ''POST''" and "Body r = Inr body"
    and "Unmarshal_ChatCompletionRequest fc body = Inr req"
    and "Model req \<noteq> []" and "len (Messages req) \<noteq> 0"
  shows "calls (handleChatCompletions fc client w r wd) = [req] \<and>
         world (handleChatCompletions fc client w r wd) = snd (client req wd)"
proof -
  obtain resp eo wd' where c: "client req wd = ((resp, eo), wd')"
    by (metis surj_pair)
  show ?thesis
  proof (cases eo)
    case None
    obtain w' x where e: "Encode resp (Header_Set ''Content-Type'' ''application/json'' w) = (w', x)"
      by (metis surj_pair)
    from assms c None e show ?thesis
      by (cases x) (simp_all add: handleChatCompletions_def)
  next
    case (Some e)
    with assms c show ?thesis by (simp add: handleChatCompletions_def)
  qed
qed

lemma unmarshal_extra_member:
  "Unmarshal_ChatCompletionRequest strconv64 extra_member_text = Inr extra_member_request"
  by (simp add: extra_member_text_def extra_member_request_def scan_simps decode_simps)


lemma marshal_extra_member:
  "Marshal_ChatCompletionRequest strconv64 extra_member_request = Inr forwarded_text"
  by (simp add: Marshal_ChatCompletionRequest_def encode_ChatCompletionRequest_def
      extra_member_request_def omitempty_float_def omitempty_def encode_slice_def
      encode_Message_def render_simps forwarded_text_def)

lemma scan_extra_member:
  "json_scan extra_member_text =
     Some (JObject [(''model'', JString ''m''),
                    (''messages'', JArray [JObject [(''role'', JString ''u''),
                                                    (''content'', JString ''c'')]]),
                    (''n'', JNumber ''2'')])"
  by (simp add: extra_member_text_def scan_simps)

lemma scan_forwarded:
  "json_scan forwarded_text =
     Some (JObject [(''model'', JString ''m''),
                    (''messages'', JArray [JObject [(''role'', JString ''u''),
                                                    (''content'', JString ''c'')]])])"
  by (simp add: forwarded_text_def scan_simps)

lemma valid_extra_member:
  "Model extra_member_request \<noteq> []" "len (Messages extra_member_request) \<noteq> 0"
  by (simp_all add: extra_member_request_def len_def)

lemma POST_simps [simp]: "Method (POST t) = ''POST''" "Body (POST t) = Inr t"
  by (simp_all add: POST_def)

lemma answering_simps [simp]:
  "NewRequest_error (answering reply) u = None" "Do (answering reply) q = Inr reply"
  by (simp_all add: answering_def)

lemma world_extra_member:
  "world (handleChatCompletions strconv64
       (CreateChatCompletion strconv64 wording
          (answering \<lparr>StatusCode = 200, ReplyBody = Inr ''{}''\<rparr>) (NewRealOpenAIClient ''sk-test''))
       (new_ResponseWriter None) (POST extra_member_text) []) =
     snd (CreateChatCompletion strconv64 wording
          (answering \<lparr>StatusCode = 200, ReplyBody = Inr ''{}''\<rparr>) (NewRealOpenAIClient ''sk-test'')
          extra_member_request [])"
  by (rule handler_calls_client_once
      [OF POST_simps unmarshal_extra_member valid_extra_member, THEN conjunct2])

lemma sent_extra_member:
  "map OutBody (snd (CreateChatCompletion strconv64 wording
          (answering \<lparr>StatusCode = 200, ReplyBody = Inr ''{}''\<rparr>) (NewRealOpenAIClient ''sk-test'')
          extra_member_request [])) =
     [forwarded_text]"
  using CreateChatCompletion_sends [OF marshal_extra_member answering_simps(1), where sent = "[]"]
  by (simp only: list.map append_Nil OutRequest.select_convs)

lemma forwarded_differs: "forwarded_text \<noteq> extra_member_text"
  by (simp add: extra_member_text_def forwarded_text_def)

subsection \<open>Replies of the provider\<close>

lemma unmarshal_error_object:
  assumes "json_scan body =
     Some (JObject [(''error'', JObject [(''message'', JString m), (''type'', JString t),
                                         (''code'', JString cd)])])"
  shows "Unmarshal_ErrorResponse body =
           Inr \<lparr>ErrorField = \<lparr>ErrMessage = m, ErrType = t, ErrCode = cd\<rparr>\<rparr>"
  using assms
  by (simp add: Unmarshal_ErrorResponse_def Unmarshal_def decode_ErrorResponse_def
      decode_struct_def ErrorResponse_field_def ErrorDetail_field_def field_match_def store_def
      decode_string_def upper_def zero_ErrorResponse_def)

lemma scan_rate_limit:
  "json_scan rate_limit_text =
     Some (JObject [(''error'', JObject [(''message'', JString ''rate limit exceeded''),
                                         (''type'', JString ''requests''),
                                         (''code'', JString ''rate_limit_exceeded'')])])"
  by (simp add: rate_limit_text_def scan_simps)

lemma scan_bad_gateway: "json_scan ''Bad Gateway'' = None"
  by (simp add: scan_simps)

lemma show_int_502: "show_int 502 = ''502''"
  by (simp add: show_int_def show_nat.simps char_of_def bit_Suc_0_iff)

subsection \<open>Short bodies\<close>





subsection \<open>The handler and the real client, step by step\<close>



lemma payload_is_remarshalled_request:
  assumes "Method r = ''POST''" and "Body r = Inr body"
    and "Unmarshal_ChatCompletionRequest fc body = Inr req"
    and "Model req \<noteq> []" and "len (Messages req) \<noteq> 0"
    and "Marshal_ChatCompletionRequest fc req = Inr jsonData"
    and "NewRequest_error nw (BaseURL c @ ''/chat/completions'') = None"
  shows "world (handleChatCompletions fc (CreateChatCompletion fc tx nw c)
                  (new_ResponseWriter we) r sent) =
           sent @ [\<lparr>OutMethod = ''POST'', URL = BaseURL c @ ''/chat/completions'',
                    OutHeader = [''Content-Type'' \<mapsto> ''application/json'',
                                 ''Authorization'' \<mapsto> ''Bearer '' @ APIKey c],
                    OutBody = jsonData\<rparr>]"
  using handler_calls_client_once [OF assms(1-5), of "CreateChatCompletion fc tx nw c"
      "new_ResponseWriter we" sent, THEN conjunct2]
  unfolding CreateChatCompletion_sends [OF assms(6,7), of tx sent] .

subsection \<open>A reply with another member\<close>










section \<open>The handler rejects what it must\<close>

text \<open>
  C8. A request whose method is not POST is answered with status 405 and the message
  \<^verbatim>\<open>Method not allowed\<close>, before anything else happens: the body is not read, the client
  is not called and its world is untouched, and the outcome is the same whatever the body
  and the client are.
\<close>

theorem method_not_allowed:
  assumes "Method r \<noteq> ''POST''"
  shows "code (rw (handleChatCompletions fc client (new_ResponseWriter we) r wd)) = Some 405 \<and>
         written (rw (handleChatCompletions fc client (new_ResponseWriter we) r wd)) =
           (case we of None \<Rightarrow> ''Method not allowed'' @ [CHR 0x0A] | Some e \<Rightarrow> []) \<and>
         \<not> body_read (handleChatCompletions fc client (new_ResponseWriter we) r wd) \<and>
         calls (handleChatCompletions fc client (new_ResponseWriter we) r wd) = [] \<and>
         world (handleChatCompletions fc client (new_ResponseWriter we) r wd) = wd \<and>
         handleChatCompletions fc client' (new_ResponseWriter we) (r\<lparr>Body := b\<rparr>) wd =
           handleChatCompletions fc client (new_ResponseWriter we) r wd"
  using assms by (simp add: handleChatCompletions_def)

theorem method_not_allowed_witness:
  "Method \<lparr>Method = ''GET'', Body = Inr []\<rparr> \<noteq> ''POST'' \<and>
   code (rw (handleChatCompletions strconv64 (Mock_CreateChatCompletion empty_mock)
               (new_ResponseWriter None) \<lparr>Method = ''GET'', Body = Inr []\<rparr> ())) = Some 405 \<and>
   written (rw (handleChatCompletions strconv64 (Mock_CreateChatCompletion empty_mock)
               (new_ResponseWriter None) \<lparr>Method = ''GET'', Body = Inr []\<rparr> ())) =
     ''Method not allowed'' @ [CHR 0x0A] \<and>
   calls (handleChatCompletions strconv64 (Mock_CreateChatCompletion empty_mock)
               (new_ResponseWriter None) \<lparr>Method = ''GET'', Body = Inr []\<rparr> ()) = []"
  using method_not_allowed [of "\<lparr>Method = ''GET'', Body = Inr []\<rparr>" strconv64
      "Mock_CreateChatCompletion empty_mock" None "()"]
  by simp

text \<open>
  C9. A POST request whose body is not a well-formed JSON text is answered with status 400
  (\<^verbatim>\<open>Invalid JSON in request body\<close>); the client is not called.
\<close>

theorem malformed_json_is_rejected:
  assumes "Method r = ''POST''" and "Body r = Inr body" and "json_scan body = None"
  shows "code (rw (handleChatCompletions fc client (new_ResponseWriter we) r wd)) = Some 400 \<and>
         written (rw (handleChatCompletions fc client (new_ResponseWriter we) r wd)) =
           (case we of None \<Rightarrow> ''Invalid JSON in request body'' @ [CHR 0x0A] | Some e \<Rightarrow> []) \<and>
         calls (handleChatCompletions fc client (new_ResponseWriter we) r wd) = [] \<and>
         world (handleChatCompletions fc client (new_ResponseWriter we) r wd) = wd"
  using assms
  by (simp add: handleChatCompletions_def Unmarshal_ChatCompletionRequest_def Unmarshal_def)

lemma scan_invalid_json: "json_scan ''invalid json'' = None"
  by (simp add: scan_simps)

theorem malformed_json_is_rejected_witness:
  "json_scan ''invalid json'' = None \<and>
   code (rw (handleChatCompletions strconv64 (Mock_CreateChatCompletion empty_mock)
               (new_ResponseWriter None) \<lparr>Method = ''POST'', Body = Inr ''invalid json''\<rparr> ()))
     = Some 400 \<and>
   written (rw (handleChatCompletions strconv64 (Mock_CreateChatCompletion empty_mock)
               (new_ResponseWriter None) \<lparr>Method = ''POST'', Body = Inr ''invalid json''\<rparr> ()))
     = ''Invalid JSON in request body'' @ [CHR 0x0A] \<and>
   calls (handleChatCompletions strconv64 (Mock_CreateChatCompletion empty_mock)
               (new_ResponseWriter None) \<lparr>Method = ''POST'', Body = Inr ''invalid json''\<rparr> ())
     = []"
  using malformed_json_is_rejected [of "\<lparr>Method = ''POST'', Body = Inr ''invalid json''\<rparr>"
      "''invalid json''" strconv64 "Mock_CreateChatCompletion empty_mock" None "()"]
    scan_invalid_json
  by simp

text \<open>
  C1. A POST request whose body parses as a ChatCompletionRequest with an empty model or
  with no message is answered with status 400 and a message that names the field; the
  client is not called: no request is passed to it, its world is untouched, and the outcome
  is the same for every client.
\<close>

theorem missing_field_is_rejected:
  assumes "Method r = ''POST''" and "Body r = Inr body"
    and "Unmarshal_ChatCompletionRequest fc body = Inr req"
    and "Model req = [] \<or> len (Messages req) = 0"
  shows "code (rw (handleChatCompletions fc client (new_ResponseWriter we) r wd)) = Some 400 \<and>
         written (rw (handleChatCompletions fc client (new_ResponseWriter we) r wd)) =
           (case we of
              None \<Rightarrow>
                (if Model req = [] then ''Model field is required''
                 else ''Messages field is required and cannot be empty'') @ [CHR 0x0A]
            | Some e \<Rightarrow> []) \<and>
         calls (handleChatCompletions fc client (new_ResponseWriter we) r wd) = [] \<and>
         world (handleChatCompletions fc client (new_ResponseWriter we) r wd) = wd \<and>
         handleChatCompletions fc client' (new_ResponseWriter we) r wd =
           handleChatCompletions fc client (new_ResponseWriter we) r wd"
  using assms by (auto simp: handleChatCompletions_def)

lemma unmarshal_missing_model:
  "Unmarshal_ChatCompletionRequest strconv64
     ''{\"model\":\"\",\"messages\":[{\"role\":\"user\",\"content\":\"Hello\"}]}'' =
   Inr \<lparr>Model = [], Messages = Some [\<lparr>Role = ''user'', Content = ''Hello''\<rparr>],
        Temperature = None, MaxTokens = None, TopP = None, Stream = None\<rparr>"
  by (simp add: scan_simps decode_simps)

theorem missing_field_is_rejected_witness:
  "Unmarshal_ChatCompletionRequest strconv64
     ''{\"model\":\"\",\"messages\":[{\"role\":\"user\",\"content\":\"Hello\"}]}'' =
   Inr \<lparr>Model = [], Messages = Some [\<lparr>Role = ''user'', Content = ''Hello''\<rparr>],
        Temperature = None, MaxTokens = None, TopP = None, Stream = None\<rparr> \<and>
   code (rw (handleChatCompletions strconv64 (Mock_CreateChatCompletion empty_mock)
               (new_ResponseWriter None)
               \<lparr>Method = ''POST'',
                Body = Inr ''{\"model\":\"\",\"messages\":[{\"role\":\"user\",\"content\":\"Hello\"}]}''\<rparr>
               ())) = Some 400 \<and>
   written (rw (handleChatCompletions strconv64 (Mock_CreateChatCompletion empty_mock)
               (new_ResponseWriter None)
               \<lparr>Method = ''POST'',
                Body = Inr ''{\"model\":\"\",\"messages\":[{\"role\":\"user\",\"content\":\"Hello\"}]}''\<rparr>
               ())) = ''Model field is required'' @ [CHR 0x0A] \<and>
   calls (handleChatCompletions strconv64 (Mock_CreateChatCompletion empty_mock)
               (new_ResponseWriter None)
               \<lparr>Method = ''POST'',
                Body = Inr ''{\"model\":\"\",\"messages\":[{\"role\":\"user\",\"content\":\"Hello\"}]}''\<rparr>
               ()) = []"
  using missing_field_is_rejected
    [of "\<lparr>Method = ''POST'',
          Body = Inr ''{\"model\":\"\",\"messages\":[{\"role\":\"user\",\"content\":\"Hello\"}]}''\<rparr>"
        "''{\"model\":\"\",\"messages\":[{\"role\":\"user\",\"content\":\"Hello\"}]}''"
        strconv64
        "\<lparr>Model = [], Messages = Some [\<lparr>Role = ''user'', Content = ''Hello''\<rparr>],
          Temperature = None, MaxTokens = None, TopP = None, Stream = None\<rparr>"
        "Mock_CreateChatCompletion empty_mock" None "()"]
    unmarshal_missing_model
  by simp

section \<open>The handler relays what the client returns\<close>

text \<open>
  C5. When the request is valid and the client returns an error, the handler answers with
  status 500 and a body that holds the message of that error after the prefix
  \<^verbatim>\<open>OpenAI API error: \<close>; with the error \<^verbatim>\<open>rate limit exceeded\<close> the status is 500.
\<close>

theorem upstream_error_is_500:
  assumes "Method r = ''POST''" and "Body r = Inr body"
    and "Unmarshal_ChatCompletionRequest fc body = Inr req"
    and "Model req \<noteq> []" and "len (Messages req) \<noteq> 0"
    and "client req wd = ((resp, Some e), wd')"
  shows "code (rw (handleChatCompletions fc client (new_ResponseWriter we) r wd)) = Some 500 \<and>
         written (rw (handleChatCompletions fc client (new_ResponseWriter we) r wd)) =
           (case we of
              None \<Rightarrow> ''OpenAI API error: '' @ Error e @ [CHR 0x0A]
            | Some x \<Rightarrow> []) \<and>
         calls (handleChatCompletions fc client (new_ResponseWriter we) r wd) = [req]"
  using assms by (simp add: handleChatCompletions_def split: option.splits)

theorem upstream_error_is_500_witness:
  "Unmarshal_ChatCompletionRequest strconv64 test_request_text = Inr test_request \<and>
   Mock_CreateChatCompletion
     \<lparr>shouldError = True, response = None, err = Some (ErrorString ''rate limit exceeded'')\<rparr>
     test_request () = ((None, Some (ErrorString ''rate limit exceeded'')), ()) \<and>
   code (rw (handleChatCompletions strconv64
          (Mock_CreateChatCompletion
            \<lparr>shouldError = True, response = None,
             err = Some (ErrorString ''rate limit exceeded'')\<rparr>)
          (new_ResponseWriter None) (POST test_request_text) ())) = Some 500 \<and>
   written (rw (handleChatCompletions strconv64
          (Mock_CreateChatCompletion
            \<lparr>shouldError = True, response = None,
             err = Some (ErrorString ''rate limit exceeded'')\<rparr>)
          (new_ResponseWriter None) (POST test_request_text) ())) =
     ''OpenAI API error: rate limit exceeded'' @ [CHR 0x0A]"
  using upstream_error_is_500 [of "POST test_request_text" test_request_text strconv64
      test_request
      "Mock_CreateChatCompletion
        \<lparr>shouldError = True, response = None, err = Some (ErrorString ''rate limit exceeded'')\<rparr>"
      "()" None "ErrorString ''rate limit exceeded''" "()" None]
    unmarshal_test_request
  by (simp add: POST_def Mock_CreateChatCompletion_def test_request_def len_def)






section \<open>The wire form of a request\<close>

subsection \<open>A request with an ill-formed string\<close>






subsection \<open>The request of the marshalling test\<close>


lemma FormatFloat64_Inf: "FormatFloat64 0x7FF0000000000000 = None"
  by (simp add: FormatFloat64_def float64_fields_def)



section \<open>What goes to the provider\<close>

text \<open>
  C4. The payload posted to the provider should be the inbound request, unmodified; the
  README of the proxy says so (\<^verbatim>\<open>All requests are forwarded directly to OpenAI without
  modification\<close>). The code does not do it: the handler decodes the body into the struct and
  the client serializes the struct, so a member of the inbound JSON object that is not a
  field of ChatCompletionRequest (here \<^verbatim>\<open>"n":2\<close>) is dropped on the way. The payload
  differs from the inbound body as a text and as a JSON value.
\<close>

theorem extra_member_is_not_forwarded:
  "json_scan extra_member_text =
     Some (JObject [(''model'', JString ''m''),
                    (''messages'', JArray [JObject [(''role'', JString ''u''),
                                                    (''content'', JString ''c'')]]),
                    (''n'', JNumber ''2'')]) \<and>
   map OutBody (world (handleChatCompletions strconv64
       (CreateChatCompletion strconv64 wording
          (answering \<lparr>StatusCode = 200, ReplyBody = Inr ''{}''\<rparr>) (NewRealOpenAIClient ''sk-test''))
       (new_ResponseWriter None) (POST extra_member_text) [])) = [forwarded_text] \<and>
   json_scan forwarded_text =
     Some (JObject [(''model'', JString ''m''),
                    (''messages'', JArray [JObject [(''role'', JString ''u''),
                                                    (''content'', JString ''c'')]])]) \<and>
   forwarded_text \<noteq> extra_member_text"
  unfolding world_extra_member
  by (intro conjI scan_extra_member sent_extra_member scan_forwarded forwarded_differs)

section \<open>What comes back from the provider\<close>

text \<open>
  C2. When the provider replies with a status other than 200 (so with every status that is
  not a success), \<open>CreateChatCompletion\<close> returns no response and an error: with the
  provider's message (\<^verbatim>\<open>API error: <message>\<close>) when the body parses as an
  ErrorResponse, with the status code and the raw body otherwise. With status 200 and a
  body that does not deserialize into a ChatCompletionResponse it returns the error of the
  deserialization; so a body that does not deserialize gives an error under every status.
  The message of an ErrorResponse is the member \<^verbatim>\<open>error.message\<close> of the body.
\<close>

theorem upstream_reply_errors:
  assumes "Marshal_ChatCompletionRequest fc req = Inr jsonData"
    and "NewRequest_error nw (BaseURL c @ ''/chat/completions'') = None"
    and "Do nw \<lparr>OutMethod = ''POST'', URL = BaseURL c @ ''/chat/completions'',
                 OutHeader = [''Content-Type'' \<mapsto> ''application/json'',
                              ''Authorization'' \<mapsto> ''Bearer '' @ APIKey c],
                 OutBody = jsonData\<rparr> = Inr reply"
    and "ReplyBody reply = Inr body"
  shows "(StatusCode reply \<noteq> 200 \<longrightarrow>
            fst (CreateChatCompletion fc tx nw c req sent) =
              (None, Some (ErrorString
                 (case Unmarshal_ErrorResponse body of
                    Inr er \<Rightarrow> ''API error: '' @ ErrMessage (ErrorField er)
                  | Inl e \<Rightarrow>
                      ''API error (status '' @ show_int (StatusCode reply) @ ''): '' @ body)))) \<and>
         (\<forall>e. StatusCode reply = 200 \<and> Unmarshal_ChatCompletionResponse body = Inl e \<longrightarrow>
            fst (CreateChatCompletion fc tx nw c req sent) =
              (None, Some (Errorf_w ''failed to unmarshal response: '' (unmarshal_text tx e body)))) \<and>
         (\<forall>e. Unmarshal_ChatCompletionResponse body = Inl e \<longrightarrow>
            fst (fst (CreateChatCompletion fc tx nw c req sent)) = None \<and>
            snd (fst (CreateChatCompletion fc tx nw c req sent)) \<noteq> None) \<and>
         (\<forall>m t cd. json_scan body =
              Some (JObject [(''error'', JObject [(''message'', JString m), (''type'', JString t),
                                                  (''code'', JString cd)])]) \<longrightarrow>
            Unmarshal_ErrorResponse body =
              Inr \<lparr>ErrorField = \<lparr>ErrMessage = m, ErrType = t, ErrCode = cd\<rparr>\<rparr>)"
proof (intro conjI allI impI)
  assume "StatusCode reply \<noteq> 200"
  with assms show "fst (CreateChatCompletion fc tx nw c req sent) =
              (None, Some (ErrorString
                 (case Unmarshal_ErrorResponse body of
                    Inr er \<Rightarrow> ''API error: '' @ ErrMessage (ErrorField er)
                  | Inl e \<Rightarrow>
                      ''API error (status '' @ show_int (StatusCode reply) @ ''): '' @ body)))"
    by (simp add: CreateChatCompletion_def Let_def StatusOK_def split: sum.splits)
next
  fix e
  assume "StatusCode reply = 200 \<and> Unmarshal_ChatCompletionResponse body = Inl e"
  with assms show "fst (CreateChatCompletion fc tx nw c req sent) =
              (None, Some (Errorf_w ''failed to unmarshal response: '' (unmarshal_text tx e body)))"
    by (simp add: CreateChatCompletion_def Let_def StatusOK_def)
next
  fix e
  assume "Unmarshal_ChatCompletionResponse body = Inl e"
  with assms show "fst (fst (CreateChatCompletion fc tx nw c req sent)) = None"
    by (simp add: CreateChatCompletion_def Let_def StatusOK_def split: sum.splits)
next
  fix e
  assume "Unmarshal_ChatCompletionResponse body = Inl e"
  with assms show "snd (fst (CreateChatCompletion fc tx nw c req sent)) \<noteq> None"
    by (simp add: CreateChatCompletion_def Let_def StatusOK_def split: sum.splits)
next
  fix m t cd
  assume "json_scan body =
     Some (JObject [(''error'', JObject [(''message'', JString m), (''type'', JString t),
                                         (''code'', JString cd)])])"
  then show "Unmarshal_ErrorResponse body =
           Inr \<lparr>ErrorField = \<lparr>ErrMessage = m, ErrType = t, ErrCode = cd\<rparr>\<rparr>"
    by (rule unmarshal_error_object)
qed

theorem upstream_reply_errors_witness:
  "Marshal_ChatCompletionRequest strconv64 extra_member_request = Inr forwarded_text \<and>
   fst (CreateChatCompletion strconv64 wording
          (answering \<lparr>StatusCode = 429, ReplyBody = Inr rate_limit_text\<rparr>)
          (NewRealOpenAIClient ''sk-test'') extra_member_request []) =
     (None, Some (ErrorString ''API error: rate limit exceeded'')) \<and>
   fst (CreateChatCompletion strconv64 wording
          (answering \<lparr>StatusCode = 502, ReplyBody = Inr ''Bad Gateway''\<rparr>)
          (NewRealOpenAIClient ''sk-test'') extra_member_request []) =
     (None, Some (ErrorString ''API error (status 502): Bad Gateway'')) \<and>
   fst (CreateChatCompletion strconv64 wording
          (answering \<lparr>StatusCode = 200, ReplyBody = Inr ''Bad Gateway''\<rparr>)
          (NewRealOpenAIClient ''sk-test'') extra_member_request []) =
     (None, Some (ErrorString
        (''failed to unmarshal response: invalid character '' @ [CHR 0x27] @ ''B'' @ [CHR 0x27]
         @ '' looking for beginning of value'')))"
proof -
  note n = answering_simps(1) and d = answering_simps(2)
  have e1: "Unmarshal_ErrorResponse rate_limit_text =
      Inr \<lparr>ErrorField = \<lparr>ErrMessage = ''rate limit exceeded'', ErrType = ''requests'',
                          ErrCode = ''rate_limit_exceeded''\<rparr>\<rparr>"
    by (rule unmarshal_error_object [OF scan_rate_limit])
  have e2: "Unmarshal_ErrorResponse ''Bad Gateway'' = Inl SyntaxError"
    by (simp add: Unmarshal_ErrorResponse_def Unmarshal_def scan_bad_gateway)
  have e3: "Unmarshal_ChatCompletionResponse ''Bad Gateway'' = Inl SyntaxError"
    by (simp add: Unmarshal_ChatCompletionResponse_def Unmarshal_def scan_bad_gateway)
  have a: "fst (CreateChatCompletion strconv64 wording
          (answering \<lparr>StatusCode = 429, ReplyBody = Inr rate_limit_text\<rparr>)
          (NewRealOpenAIClient ''sk-test'') extra_member_request []) =
     (None, Some (ErrorString ''API error: rate limit exceeded''))"
    using upstream_reply_errors [OF marshal_extra_member n d,
        where reply = "\<lparr>StatusCode = 429, ReplyBody = Inr rate_limit_text\<rparr>"
          and body = rate_limit_text and sent = "[]" and tx = wording
          and c = "NewRealOpenAIClient ''sk-test''"]
    by (simp add: e1)
  have b: "fst (CreateChatCompletion strconv64 wording
          (answering \<lparr>StatusCode = 502, ReplyBody = Inr ''Bad Gateway''\<rparr>)
          (NewRealOpenAIClient ''sk-test'') extra_member_request []) =
     (None, Some (ErrorString ''API error (status 502): Bad Gateway''))"
    using upstream_reply_errors [OF marshal_extra_member n d,
        where reply = "\<lparr>StatusCode = 502, ReplyBody = Inr ''Bad Gateway''\<rparr>"
          and body = "''Bad Gateway''" and sent = "[]" and tx = wording
          and c = "NewRealOpenAIClient ''sk-test''"]
    by (simp add: e2 show_int_502)
  have c: "fst (CreateChatCompletion strconv64 wording
          (answering \<lparr>StatusCode = 200, ReplyBody = Inr ''Bad Gateway''\<rparr>)
          (NewRealOpenAIClient ''sk-test'') extra_member_request []) =
     (None, Some (ErrorString
        (''failed to unmarshal response: invalid character '' @ [CHR 0x27] @ ''B'' @ [CHR 0x27]
         @ '' looking for beginning of value'')))"
  proof -
    have t: "unmarshal_text wording SyntaxError ''Bad Gateway'' =
               ''invalid character '' @ [CHR 0x27] @ ''B'' @ [CHR 0x27]
               @ '' looking for beginning of value''"
      by (simp add: wording_def)
    from upstream_reply_errors [OF marshal_extra_member n d,
        where reply = "\<lparr>StatusCode = 200, ReplyBody = Inr ''Bad Gateway''\<rparr>"
          and body = "''Bad Gateway''" and sent = "[]" and tx = wording
          and c = "NewRealOpenAIClient ''sk-test''", THEN conjunct2, THEN conjunct1,
        rule_format, of SyntaxError] e3
    have "fst (CreateChatCompletion strconv64 wording
          (answering \<lparr>StatusCode = 200, ReplyBody = Inr ''Bad Gateway''\<rparr>)
          (NewRealOpenAIClient ''sk-test'') extra_member_request []) =
       (None, Some (Errorf_w ''failed to unmarshal response: ''
                      (unmarshal_text wording SyntaxError ''Bad Gateway'')))"
      by simp
    then show ?thesis
      unfolding t Errorf_w_def by simp
  qed
  from marshal_extra_member a b c show ?thesis by (intro conjI)
qed

section \<open>Well-formed bodies that are not requests\<close>






















end
